theory Spec2Isabelle
  imports
    Complex_Main
    "HOL-Library.Sublist"
    "HOL-Library.AList"
    "HOL-Library.Multiset"
    "HOL-Library.Char_ord"
    "HOL-Library.List_Lexorder"
begin

section \<open>Python string primitives used by the benchmark pipeline\<close>

text \<open>
  Names, paths and size labels are Python \<^verbatim>\<open>str\<close> values. They are modelled as
  \<^typ>\<open>string\<close>, one \<^typ>\<open>char\<close> per code point, which covers the code points
  below 256 (Latin-1); the benchmark names of the repository are ASCII.
\<close>

text \<open>\<^verbatim>\<open>str.lower()\<close> on one code point below 256: A-Z and the Latin-1 capitals
  (0xC0-0xDE without the multiplication sign 0xD7) move up by 32.\<close>

definition lower_char :: "char \<Rightarrow> char" where
  "lower_char c =
     (let n = (of_char c :: nat)
      in if (65 \<le> n \<and> n \<le> 90) \<or> (192 \<le> n \<and> n \<le> 222 \<and> n \<noteq> 215)
         then char_of (n + 32) else c)"

definition lower :: "string \<Rightarrow> string" where
  "lower s = map lower_char s"

text \<open>\<^verbatim>\<open>str.upper()\<close> on code points below 256: a-z and the Latin-1 small letters
  0xE0-0xFE without the division sign 0xF7 move down by 32, and the sharp s 0xDF becomes
  \<^verbatim>\<open>SS\<close>. The code points 0xB5 and 0xFF, whose upper-case forms lie outside Latin-1,
  cannot be written in this alphabet and are left unchanged; \<open>upper\<close> is used for
  display labels only.\<close>

definition upper_char :: "char \<Rightarrow> string" where
  "upper_char c =
     (let n = (of_char c :: nat)
      in if n = 223 then ''SS''
         else if (97 \<le> n \<and> n \<le> 122) \<or> (224 \<le> n \<and> n \<le> 254 \<and> n \<noteq> 247)
         then [char_of (n - 32)] else [c])"

definition upper :: "string \<Rightarrow> string" where
  "upper s = concat (map upper_char s)"

text \<open>\<^verbatim>\<open>sub in s\<close>: substring containment, scanning \<open>s\<close> from the left.\<close>

fun contains :: "string \<Rightarrow> string \<Rightarrow> bool" where
  "contains sub [] = (sub = [])"
| "contains sub (c # cs) = (prefix sub (c # cs) \<or> contains sub cs)"

text \<open>\<^verbatim>\<open>s.endswith(suf)\<close>.\<close>

definition endswith :: "string \<Rightarrow> string \<Rightarrow> bool" where
  "endswith s suf = suffix suf s"

text \<open>\<^verbatim>\<open>s.split(sep)\<close> for a non-empty separator (the source passes the literals
  \<^verbatim>\<open>'_'\<close> and \<^verbatim>\<open>'_really_cold_'\<close>): scan from the left, cut at every
  non-overlapping occurrence. \<open>acc\<close> is the part read so far.\<close>

function split_aux :: "string \<Rightarrow> string \<Rightarrow> string \<Rightarrow> string list" where
  "split_aux sep acc [] = [acc]"
| "split_aux sep acc (c # cs) =
     (if sep \<noteq> [] \<and> prefix sep (c # cs)
      then acc # split_aux sep [] (drop (length sep) (c # cs))
      else split_aux sep (acc @ [c]) cs)"
  by pat_completeness auto
termination
  by (relation "measure (\<lambda>(sep, acc, s). length s)") auto

definition split :: "string \<Rightarrow> string \<Rightarrow> string list" where
  "split sep s = split_aux sep [] s"

text \<open>\<^verbatim>\<open>s.replace(c, '')\<close> for a one-character \<open>c\<close>: every occurrence is deleted.\<close>

definition replace_char_empty :: "char \<Rightarrow> string \<Rightarrow> string" where
  "replace_char_empty c s = filter (\<lambda>x. x \<noteq> c) s"

section \<open>Benchmark keys\<close>

text \<open>
  \<^verbatim>\<open>_parse_benchmark_key(name)\<close> of \<^verbatim>\<open>funcitons.py\<close>. The result is the tuple
  \<open>(size, cache_type, compression)\<close>, or \<open>None\<close> where the source returns \<^verbatim>\<open>None\<close>.
  The three-part branch falls through to the legacy branch when it does not return.
\<close>

definition compression_tokens :: "string list" where
  "compression_tokens = [''raw'', ''gz'', ''bgz'']"

definition cache_tokens :: "string list" where
  "cache_tokens = [''hot'', ''cold'']"

definition parse_really_cold :: "string \<Rightarrow> (string \<times> string \<times> string) option" where
  "parse_really_cold name_lower =
     (let parts = split ''_really_cold_'' name_lower
      in if length parts = 2
         then (let size = parts ! 0; compression = parts ! 1
               in if compression \<in> set compression_tokens
                  then Some (size, ''really_cold'', compression)
                  else None)
         else None)"

definition parse_three_part :: "string list \<Rightarrow> (string \<times> string \<times> string) option" where
  "parse_three_part parts =
     (if length parts \<ge> 3
      then (let size = parts ! 0;
                cache_type = (if parts ! 1 \<in> set cache_tokens then Some (parts ! 1) else None);
                compression = (if parts ! 2 \<in> set compression_tokens then Some (parts ! 2) else None)
            in case (cache_type, compression) of
                 (Some ca, Some co) \<Rightarrow> Some (size, ca, co)
               | _ \<Rightarrow> None)
      else None)"

definition parse_legacy :: "string list \<Rightarrow> (string \<times> string \<times> string) option" where
  "parse_legacy parts =
     (if length parts = 2
      then (if parts ! 0 \<in> set cache_tokens \<and> parts ! 1 \<in> set compression_tokens
            then Some (''default'', parts ! 0, parts ! 1)
            else None)
      else None)"

definition parse_benchmark_key :: "string \<Rightarrow> (string \<times> string \<times> string) option" where
  "parse_benchmark_key name =
     (let name_lower = lower name
      in if contains ''really_cold'' name_lower
         then parse_really_cold name_lower
         else (let parts = split ''_'' name_lower
               in case parse_three_part parts of
                    Some r \<Rightarrow> Some r
                  | None \<Rightarrow> parse_legacy parts))"

section \<open>Size ordering\<close>

text \<open>
  Python's built-in \<^verbatim>\<open>float(str)\<close> belongs to the interpreter, not to the repository.
  The functions that call it take it as the parameter \<open>float_of\<close>: \<open>Some v\<close> is the
  finite value returned, \<open>None\<close> is \<^verbatim>\<open>ValueError\<close>. Values are exact reals; the
  rounding of binary64 and the non-finite results of \<^verbatim>\<open>float('inf')\<close> and
  \<^verbatim>\<open>float('nan')\<close> are outside the model.

  \<open>float_decimal\<close> agrees with \<^verbatim>\<open>float\<close> on the unsigned plain decimal literals
  \<^verbatim>\<open>digits\<close>, \<^verbatim>\<open>digits.\<close>, \<^verbatim>\<open>digits.digits\<close> and \<^verbatim>\<open>.digits\<close> and on the strings
  without a digit that are not a spelling of infinity or NaN; it is \<open>None\<close> on every
  other string, also on the signed, exponent, underscore and padded forms that
  \<^verbatim>\<open>float\<close> accepts. It instantiates \<open>float_of\<close> in the concrete examples only, all of
  which use strings on which the two agree.
\<close>

definition is_digit :: "char \<Rightarrow> bool" where
  "is_digit c = (let n = (of_char c :: nat) in 48 \<le> n \<and> n \<le> 57)"

definition digit_value :: "char \<Rightarrow> nat" where
  "digit_value c = of_char c - 48"

definition digits_value :: "string \<Rightarrow> nat" where
  "digits_value ds = foldl (\<lambda>a c. 10 * a + digit_value c) 0 ds"

definition float_decimal :: "string \<Rightarrow> real option" where
  "float_decimal s =
     (let ip = takeWhile is_digit s; rest = dropWhile is_digit s
      in case rest of
           [] \<Rightarrow> if ip = [] then None else Some (real (digits_value ip))
         | c # fp \<Rightarrow>
             if c = CHR ''.'' \<and> list_all is_digit fp \<and> (ip \<noteq> [] \<or> fp \<noteq> [])
             then Some (real (digits_value ip) + real (digits_value fp) / 10 ^ length fp)
             else None)"

text \<open>
  \<^verbatim>\<open>size_sort_key(s)\<close>, the local function of \<^verbatim>\<open>plot_mean_times\<close> (repeated in
  \<^verbatim>\<open>plot_scatter_runs\<close>): 0 for \<^verbatim>\<open>'default'\<close>, otherwise the float left after deleting
  every \<^verbatim>\<open>m\<close> and \<^verbatim>\<open>M\<close> (\<^verbatim>\<open>s.replace('m', '').replace('M', '')\<close>, here
  \<open>strip_unit\<close>), and 999 when \<^verbatim>\<open>float\<close> raises.
\<close>

definition strip_unit :: "string \<Rightarrow> string" where
  "strip_unit s = replace_char_empty CHR ''M'' (replace_char_empty CHR ''m'' s)"

definition size_sort_key :: "(string \<Rightarrow> real option) \<Rightarrow> string \<Rightarrow> real" where
  "size_sort_key float_of s =
     (if s = ''default'' then 0
      else case float_of (strip_unit s) of
             Some v \<Rightarrow> v
           | None \<Rightarrow> 999)"

text \<open>\<^verbatim>\<open>sorted(set(xs), key=size_sort_key)\<close>. Python's \<^verbatim>\<open>sorted\<close> is stable, as
  \<^const>\<open>sort_key\<close> is. The iteration order of a \<^verbatim>\<open>set\<close> is unspecified; the model
  takes the labels in the order \<^const>\<open>remdups\<close> leaves them, each at its last
  occurrence. The choice shows only between labels of equal key.\<close>

definition sorted_sizes :: "(string \<Rightarrow> real option) \<Rightarrow> string list \<Rightarrow> string list" where
  "sorted_sizes float_of xs = sort_key (size_sort_key float_of) (remdups xs)"

text \<open>The key of \<^verbatim>\<open>sorted(..., key=lambda x: {'raw': 0, 'gz': 1, 'bgz': 2}.get(x, 3))\<close>.\<close>

definition compression_rank :: "string \<Rightarrow> nat" where
  "compression_rank x =
     (if x = ''raw'' then 0 else if x = ''gz'' then 1 else if x = ''bgz'' then 2 else 3)"

section \<open>Exceptions and the file system\<close>

text \<open>The exceptions the modelled code can meet; each is a subclass of
  \<^verbatim>\<open>Exception\<close>, and \<^verbatim>\<open>JSONDecodeError\<close> is the only one the loader catches.
  \<^verbatim>\<open>UnicodeDecodeError\<close> and \<^verbatim>\<open>RecursionError\<close> are what \<^verbatim>\<open>json.load\<close> raises on
  bytes that are not UTF-8 and on nesting beyond the recursion limit.\<close>

datatype exn =
    JSONDecodeError
  | UnicodeDecodeError
  | RecursionError
  | KeyError
  | TypeError
  | AttributeError
  | OSError
  | ZeroDivisionError
  | OverflowError

text \<open>
  The file system is a parameter: \<open>fs p\<close> is \<open>Inr (Some n)\<close> for an entry of \<open>n\<close>
  bytes at path \<open>p\<close>, \<open>Inr None\<close> for no entry, and \<open>Inl OSError\<close> where the system
  call itself fails (permissions, I/O).
\<close>

type_synonym filesystem = "string \<Rightarrow> exn + nat option"

definition path_exists :: "filesystem \<Rightarrow> string \<Rightarrow> exn + bool" where
  "path_exists fs p = (case fs p of Inl e \<Rightarrow> Inl e | Inr None \<Rightarrow> Inr False | Inr (Some n) \<Rightarrow> Inr True)"

definition stat_st_size :: "filesystem \<Rightarrow> string \<Rightarrow> exn + nat" where
  "stat_st_size fs p = (case fs p of Inl e \<Rightarrow> Inl e | Inr None \<Rightarrow> Inl OSError | Inr (Some n) \<Rightarrow> Inr n)"

text \<open>
  \<^verbatim>\<open>pathlib.Path\<close> on a POSIX path given as a string: the components are the pieces
  between slashes without the empty ones and the single dots; \<^verbatim>\<open>parts\<close> has one more
  element, the root, when the path starts with a slash; \<^verbatim>\<open>parent.name\<close> is the
  component before the last, or the empty string when there is none.
\<close>

definition path_components :: "string \<Rightarrow> string list" where
  "path_components p = filter (\<lambda>c. c \<noteq> [] \<and> c \<noteq> ''.'') (split ''/'' p)"

definition parts_length :: "string \<Rightarrow> nat" where
  "parts_length p = (if prefix ''/'' p then 1 else 0) + length (path_components p)"

definition parent_name :: "string \<Rightarrow> string" where
  "parent_name p =
     (let cs = path_components p
      in if length cs \<ge> 2 then cs ! (length cs - 2) else [])"

text \<open>\<^verbatim>\<open>str.isdigit()\<close> on one code point below 256: 0-9 and the superscripts
  0xB2, 0xB3, 0xB9.\<close>

definition isdigit :: "char \<Rightarrow> bool" where
  "isdigit c = (let n = (of_char c :: nat) in (48 \<le> n \<and> n \<le> 57) \<or> n = 178 \<or> n = 179 \<or> n = 185)"

section \<open>File-size resolver\<close>

text \<open>The first tier of \<^verbatim>\<open>get_file_size_bytes\<close>: generated really-cold files of known
  size, tested by substring on the whole path, in the order of the source.\<close>

definition really_cold_bytes :: "string \<Rightarrow> nat option" where
  "really_cold_bytes json_path_str =
     (if contains ''really_cold_10mb'' json_path_str then Some (10 * 1024 ^ 2)
      else if contains ''really_cold_100mb'' json_path_str then Some (100 * 1024 ^ 2)
      else if contains ''really_cold_1gb'' json_path_str then Some (1 * 1024 ^ 3)
      else if contains ''really_cold_4gb'' json_path_str then Some (4 * 1024 ^ 3)
      else None)"

text \<open>The same tier in \<^verbatim>\<open>get_file_size_from_results\<close>, which returns a text.\<close>

definition really_cold_text :: "string \<Rightarrow> string option" where
  "really_cold_text json_path_str =
     (if contains ''really_cold_10mb'' json_path_str then Some ''~10 MB, raw''
      else if contains ''really_cold_100mb'' json_path_str then Some ''~100 MB, raw''
      else if contains ''really_cold_1gb'' json_path_str then Some ''~1 GB, raw''
      else if contains ''really_cold_4gb'' json_path_str then Some ''~4 GB, raw''
      else None)"

text \<open>\<^verbatim>\<open>test_size\<close>: the name of the parent directory when it ends in \<^verbatim>\<open>m\<close> and has a
  digit, else \<^verbatim>\<open>None\<close>.\<close>

definition test_size_of :: "string \<Rightarrow> string option" where
  "test_size_of json_path =
     (if parts_length json_path \<ge> 2
      then (let parent_dir = parent_name json_path
            in if endswith parent_dir ''m'' \<and> list_ex isdigit parent_dir
               then Some parent_dir else None)
      else None)"

text \<open>The \<^verbatim>\<open>if/elif/else\<close> chain that both resolver functions run on the path string:
  the pair \<open>(file_suffix, compression_type)\<close>, or \<open>None\<close> where the source returns
  \<^verbatim>\<open>None\<close> at once.\<close>

definition compression_of_path :: "string \<Rightarrow> (string \<times> string) option" where
  "compression_of_path json_path_str =
     (if contains ''raw'' json_path_str \<or> endswith json_path_str ''hot_raw.json''
         \<or> endswith json_path_str ''cold_raw.json''
      then Some (''.fastq'', ''raw'')
      else if contains ''bgz'' json_path_str then Some (''.fastq_bgzipped.gz'', ''bgzip'')
      else if contains ''gz'' json_path_str then Some (''.fastq.gz'', ''gzip'')
      else None)"

text \<open>The lookup under \<^verbatim>\<open>test-data\<close> that ends both functions: the size in bytes of
  \<^verbatim>\<open>test-data/<test_size><file_suffix>\<close> when the directory and the file exist.\<close>

definition data_file_size :: "filesystem \<Rightarrow> string option \<Rightarrow> string \<Rightarrow> exn + nat option" where
  "data_file_size fs test_size file_suffix =
     (case test_size of
        None \<Rightarrow> Inr None
      | Some ts \<Rightarrow>
          (case path_exists fs ''test-data'' of
             Inl e \<Rightarrow> Inl e
           | Inr False \<Rightarrow> Inr None
           | Inr True \<Rightarrow>
               (let file_path = ''test-data/'' @ ts @ file_suffix
                in case path_exists fs file_path of
                     Inl e \<Rightarrow> Inl e
                   | Inr False \<Rightarrow> Inr None
                   | Inr True \<Rightarrow>
                       (case stat_st_size fs file_path of
                          Inl e \<Rightarrow> Inl e
                        | Inr n \<Rightarrow> Inr (Some n)))))"

text \<open>The body of the \<^verbatim>\<open>try\<close> block of \<^verbatim>\<open>get_file_size_bytes\<close>.\<close>

definition get_file_size_bytes_try :: "filesystem \<Rightarrow> string \<Rightarrow> exn + nat option" where
  "get_file_size_bytes_try fs json_path =
     (case really_cold_bytes json_path of
        Some n \<Rightarrow> Inr (Some n)
      | None \<Rightarrow>
          (let test_size = test_size_of json_path
           in case compression_of_path json_path of
                None \<Rightarrow> Inr None
              | Some (file_suffix, compression_type) \<Rightarrow> data_file_size fs test_size file_suffix))"

text \<open>\<^verbatim>\<open>get_file_size_bytes(json_path)\<close>: the \<^verbatim>\<open>try\<close> block under
  \<^verbatim>\<open>except Exception: return None\<close>.\<close>

definition get_file_size_bytes :: "filesystem \<Rightarrow> string \<Rightarrow> nat option" where
  "get_file_size_bytes fs json_path =
     (case get_file_size_bytes_try fs json_path of
        Inl e \<Rightarrow> None
      | Inr r \<Rightarrow> r)"

text \<open>
  \<^verbatim>\<open>get_file_size_from_results(json_path)\<close> returns a display text. The text of a
  measured file is a rendering of its size in bytes and of the compression type
  (\<^verbatim>\<open>f"{size_str}, {compression_type}"\<close>); the model keeps the two values and leaves
  the number formatting out.
\<close>

datatype size_text = Literal_text string | Measured_text nat string

definition get_file_size_from_results_try :: "filesystem \<Rightarrow> string \<Rightarrow> exn + size_text option" where
  "get_file_size_from_results_try fs json_path =
     (case really_cold_text json_path of
        Some t \<Rightarrow> Inr (Some (Literal_text t))
      | None \<Rightarrow>
          (let test_size = test_size_of json_path
           in case compression_of_path json_path of
                None \<Rightarrow> Inr None
              | Some (file_suffix, compression_type) \<Rightarrow>
                  (case data_file_size fs test_size file_suffix of
                     Inl e \<Rightarrow> Inl e
                   | Inr None \<Rightarrow> Inr None
                   | Inr (Some size_bytes) \<Rightarrow> Inr (Some (Measured_text size_bytes compression_type)))))"

definition get_file_size_from_results :: "filesystem \<Rightarrow> string \<Rightarrow> size_text option" where
  "get_file_size_from_results fs json_path =
     (case get_file_size_from_results_try fs json_path of
        Inl e \<Rightarrow> None
      | Inr r \<Rightarrow> r)"

section \<open>Result loader\<close>

text \<open>A decoded JSON document, as \<^verbatim>\<open>json.load\<close> returns it: \<^verbatim>\<open>None\<close>, \<^verbatim>\<open>bool\<close>,
  \<^verbatim>\<open>int\<close>, \<^verbatim>\<open>float\<close> (a finite value, kept as an exact real; the literals
  \<^verbatim>\<open>NaN\<close> and \<^verbatim>\<open>Infinity\<close>, which the decoder accepts too, are not values of this
  type), \<^verbatim>\<open>str\<close>, \<^verbatim>\<open>list\<close> and \<^verbatim>\<open>dict\<close> (an association list in which a key
  occurs once; \<^const>\<open>map_of\<close> looks a key up).\<close>

datatype json =
    JNull
  | JBool bool
  | JInt int
  | JFloat real
  | JStr string
  | JArr "json list"
  | JObj "(string \<times> json) list"

text \<open>
  \<^verbatim>\<open>load_hyperfine_results(json_path)\<close> opens the file and calls \<^verbatim>\<open>json.load\<close>. Both
  are library calls on the outside world, which is the parameter \<open>documents\<close>: the
  decoded document of a path, or the exception raised on the way
  (\<^verbatim>\<open>OSError\<close> from \<^verbatim>\<open>open\<close>; from the read and the decoder
  \<^verbatim>\<open>JSONDecodeError\<close> on a syntax error, \<^verbatim>\<open>UnicodeDecodeError\<close> on bytes that are not
  text of the encoding, \<^verbatim>\<open>RecursionError\<close> on too deep a nesting).
\<close>

type_synonym documents = "string \<Rightarrow> exn + json"

definition load_hyperfine_results :: "documents \<Rightarrow> string \<Rightarrow> exn + json" where
  "load_hyperfine_results docs json_path = docs json_path"

text \<open>\<^verbatim>\<open>d[k]\<close> with a string key: \<^verbatim>\<open>KeyError\<close> on a dict without the key,
  \<^verbatim>\<open>TypeError\<close> on every other value.\<close>

definition getitem :: "json \<Rightarrow> string \<Rightarrow> exn + json" where
  "getitem d k =
     (case d of
        JObj kv \<Rightarrow> (case map_of kv k of Some v \<Rightarrow> Inr v | None \<Rightarrow> Inl KeyError)
      | _ \<Rightarrow> Inl TypeError)"

text \<open>\<^verbatim>\<open>d.get(k, default)\<close>: only a dict has the method.\<close>

definition dict_get :: "json \<Rightarrow> string \<Rightarrow> json \<Rightarrow> exn + json" where
  "dict_get d k dflt =
     (case d of
        JObj kv \<Rightarrow> Inr (case map_of kv k of Some v \<Rightarrow> v | None \<Rightarrow> dflt)
      | _ \<Rightarrow> Inl AttributeError)"

text \<open>\<^verbatim>\<open>for x in v\<close>: the elements of a list, the keys of a dict, the characters of a
  string; \<^verbatim>\<open>TypeError\<close> on the rest.\<close>

definition iterate :: "json \<Rightarrow> exn + json list" where
  "iterate v =
     (case v of
        JArr xs \<Rightarrow> Inr xs
      | JObj kv \<Rightarrow> Inr (map (\<lambda>p. JStr (fst p)) kv)
      | JStr s \<Rightarrow> Inr (map (\<lambda>c. JStr [c]) s)
      | _ \<Rightarrow> Inl TypeError)"

text \<open>Truth value of a JSON value in a condition.\<close>

definition truthy :: "json \<Rightarrow> bool" where
  "truthy v =
     (case v of
        JNull \<Rightarrow> False
      | JBool b \<Rightarrow> b
      | JInt i \<Rightarrow> i \<noteq> 0
      | JFloat r \<Rightarrow> r \<noteq> 0
      | JStr s \<Rightarrow> s \<noteq> []
      | JArr xs \<Rightarrow> xs \<noteq> []
      | JObj kv \<Rightarrow> kv \<noteq> [])"

text \<open>\<^verbatim>\<open>code != 0\<close>: \<^verbatim>\<open>0\<close>, \<^verbatim>\<open>0.0\<close> and \<^verbatim>\<open>False\<close> equal zero, nothing else does.\<close>

definition ne_zero :: "json \<Rightarrow> bool" where
  "ne_zero v =
     (case v of
        JInt i \<Rightarrow> i \<noteq> 0
      | JFloat r \<Rightarrow> r \<noteq> 0
      | JBool b \<Rightarrow> b
      | _ \<Rightarrow> True)"

text \<open>The lines the loader prints, by kind and with the values they show.\<close>

datatype warning =
    Skipping_invalid_json string
  | Command_failed json nat nat
  | No_timing_data json
  | No_successful_results string

text \<open>One record of the loader is the Python dict built at the end of the loop body.\<close>

type_synonym run_record = "(string \<times> json) list"

definition get_or :: "(string \<times> json) list \<Rightarrow> string \<Rightarrow> json \<Rightarrow> json" where
  "get_or kv k dflt = (case map_of kv k of Some v \<Rightarrow> v | None \<Rightarrow> dflt)"

definition make_record :: "(string \<times> json) list \<Rightarrow> json \<Rightarrow> json \<Rightarrow> run_record" where
  "make_record kv command mean =
     [(''command'', command),
      (''mean'', mean),
      (''stddev'', get_or kv ''stddev'' (JFloat 0)),
      (''median'', get_or kv ''median'' mean),
      (''min'', get_or kv ''min'' mean),
      (''max'', get_or kv ''max'' mean),
      (''times'', get_or kv ''times'' (JArr [mean]))]"

text \<open>
  The loop body of \<^verbatim>\<open>parse_benchmark_data\<close> on one element \<open>result\<close> of the results:
  \<open>Inl e\<close> is an exception, \<open>Inr (Inl w)\<close> is \<^verbatim>\<open>continue\<close> after printing \<open>w\<close>,
  \<open>Inr (Inr r)\<close> is \<^verbatim>\<open>records.append(r)\<close>. The first use of \<open>result\<close> is
  \<^verbatim>\<open>result.get\<close>, which only a dict has.
\<close>

definition process_result :: "json \<Rightarrow> exn + (warning + run_record)" where
  "process_result result =
     (case result of
        JObj kv \<Rightarrow>
          (let exit_codes = get_or kv ''exit_codes'' (JArr []);
               command_or_unknown = get_or kv ''command'' (JStr ''unknown'')
           in case (if truthy exit_codes then iterate exit_codes else Inr []) of
                Inl e \<Rightarrow> Inl e
              | Inr codes \<Rightarrow>
                  if list_ex ne_zero codes
                  then Inr (Inl (Command_failed command_or_unknown
                                   (length (filter ne_zero codes)) (length codes)))
                  else if map_of kv ''mean'' = None \<or> map_of kv ''mean'' = Some JNull
                  then Inr (Inl (No_timing_data command_or_unknown))
                  else (case map_of kv ''command'' of
                          None \<Rightarrow> Inl KeyError
                        | Some command \<Rightarrow>
                            Inr (Inr (make_record kv command (get_or kv ''mean'' JNull)))))
      | _ \<Rightarrow> Inl AttributeError)"

text \<open>The \<^verbatim>\<open>for\<close> loop: it stops at the first exception; otherwise it yields the
  printed lines and the records, each in order.\<close>

fun collect :: "json list \<Rightarrow> exn + (warning list \<times> run_record list)" where
  "collect [] = Inr ([], [])"
| "collect (result # rest) =
     (case process_result result of
        Inl e \<Rightarrow> Inl e
      | Inr step \<Rightarrow>
          (case collect rest of
             Inl e \<Rightarrow> Inl e
           | Inr (warnings, records) \<Rightarrow>
               (case step of
                  Inl w \<Rightarrow> Inr (w # warnings, records)
                | Inr r \<Rightarrow> Inr (warnings, r # records))))"

section \<open>Tables handed to the derivation engine\<close>

text \<open>
  A row of a loaded \<^verbatim>\<open>DataFrame\<close>, with the columns the derivations read. The columns
  are \<^verbatim>\<open>Float64\<close>; the times of a row are finite values, kept as exact reals, and a
  frame holding an infinite or NaN time is outside the model. \<^verbatim>\<open>stddev\<close> may be null,
  which the source tests for. A dict of tables is an association list in insertion order
  with distinct keys.
\<close>

record row =
  command :: string
  mean :: real
  stddev :: "real option"
  min_time :: real
  max_time :: real

type_synonym dataframe = "row list"

definition frame_of :: "(string \<times> dataframe) list \<Rightarrow> string \<Rightarrow> dataframe" where
  "frame_of all_data k = (case map_of all_data k of Some df \<Rightarrow> df | None \<Rightarrow> [])"

text \<open>\<^verbatim>\<open>row['stddev'] if row['stddev'] is not None else 0.0\<close>.\<close>

definition stddev_or_zero :: "row \<Rightarrow> real" where
  "stddev_or_zero r = (case stddev r of Some s \<Rightarrow> s | None \<Rightarrow> 0)"

text \<open>The list \<^verbatim>\<open>matching_keys\<close> of \<^verbatim>\<open>plot_test_size_scaling\<close> and
  \<^verbatim>\<open>plot_throughput\<close>.\<close>

definition matching_keys :: "(string \<times> dataframe) list \<Rightarrow> string \<Rightarrow> string \<Rightarrow> string list" where
  "matching_keys all_data cache_type file_format =
     filter (\<lambda>k. contains (''_'' @ cache_type @ ''_'') k
                \<and> endswith k (''_'' @ file_format)
                \<and> \<not> contains ''really_cold'' k
                \<and> length (frame_of all_data k) > 0)
            (map fst all_data)"

text \<open>\<^verbatim>\<open>extract_size_info(key)\<close>: \<open>(size_value, size_str, display_str)\<close>, with
  \<open>size_value = None\<close> when \<^verbatim>\<open>float\<close> raises.\<close>

definition extract_size_info ::
  "(string \<Rightarrow> real option) \<Rightarrow> string \<Rightarrow> real option \<times> string \<times> string" where
  "extract_size_info float_of key =
     (let size_str = hd (split ''_'' key)
      in case float_of (strip_unit size_str) of
           Some size_value \<Rightarrow> (Some size_value, size_str, upper size_str)
         | None \<Rightarrow> (None, size_str, size_str))"

section \<open>The loaded table\<close>

text \<open>
  A row of the table the loader returns: the columns of \<open>row\<close> and the two further
  columns \<^verbatim>\<open>median\<close> and \<^verbatim>\<open>times\<close>. The empty table with the fixed schema,
  \<^verbatim>\<open>pl.DataFrame(schema={...})\<close>, is the empty list of rows.
\<close>

record metrics_row = row +
  median_time :: real
  run_times :: "real list"

type_synonym metrics_table = "metrics_row list"

definition is_float :: "json \<Rightarrow> bool" where
  "is_float v = (case v of JFloat r \<Rightarrow> True | _ \<Rightarrow> False)"

definition is_float_list :: "json \<Rightarrow> bool" where
  "is_float_list v = (case v of JArr xs \<Rightarrow> xs \<noteq> [] \<and> list_all is_float xs | _ \<Rightarrow> False)"

definition the_float :: "json \<Rightarrow> real" where
  "the_float v = (case v of JFloat r \<Rightarrow> r | _ \<Rightarrow> 0)"

definition the_floats :: "json \<Rightarrow> real list" where
  "the_floats v = (case v of JArr xs \<Rightarrow> map the_float xs | _ \<Rightarrow> [])"

definition the_string :: "json \<Rightarrow> string" where
  "the_string v = (case v of JStr s \<Rightarrow> s | _ \<Rightarrow> [])"

text \<open>
  \<^verbatim>\<open>pl.DataFrame(records)\<close> is a call of the polars library. On records whose columns
  are uniformly typed (\<^verbatim>\<open>command\<close> a string, the five statistics floats, \<^verbatim>\<open>times\<close> a
  non-empty list of floats) it builds the frame with one row per record and the values
  as they are. On any other records (integers, nulls or strings among the numbers)
  polars infers a common type and converts, or raises, depending on the records and on
  its version: that behaviour is the parameter \<open>infer\<close>, which the model does not fix.
\<close>

definition typed_record :: "run_record \<Rightarrow> bool" where
  "typed_record r =
     ((case map_of r ''command'' of Some (JStr c) \<Rightarrow> True | _ \<Rightarrow> False)
      \<and> list_all (\<lambda>k. case map_of r k of Some v \<Rightarrow> is_float v | None \<Rightarrow> False)
                   [''mean'', ''stddev'', ''median'', ''min'', ''max'']
      \<and> (case map_of r ''times'' of Some v \<Rightarrow> is_float_list v | None \<Rightarrow> False))"

definition row_of_record :: "run_record \<Rightarrow> metrics_row" where
  "row_of_record r =
     \<lparr> command = the_string (get_or r ''command'' JNull),
       mean = the_float (get_or r ''mean'' JNull),
       stddev = Some (the_float (get_or r ''stddev'' JNull)),
       min_time = the_float (get_or r ''min'' JNull),
       max_time = the_float (get_or r ''max'' JNull),
       median_time = the_float (get_or r ''median'' JNull),
       run_times = the_floats (get_or r ''times'' JNull) \<rparr>"

type_synonym frame_builder = "run_record list \<Rightarrow> exn + metrics_table"

definition pl_DataFrame :: "frame_builder \<Rightarrow> run_record list \<Rightarrow> exn + metrics_table" where
  "pl_DataFrame infer records =
     (if list_all typed_record records then Inr (map row_of_record records)
      else infer records)"

text \<open>
  \<^verbatim>\<open>parse_benchmark_data(json_path)\<close>. The only handler is
  \<^verbatim>\<open>except json.JSONDecodeError\<close> around the load; every other exception leaves the
  function. The call of \<^verbatim>\<open>get_file_size_from_results\<close> cannot raise and its result
  is not used. The function ends with \<^verbatim>\<open>pl.DataFrame(records)\<close>, or with the empty
  table when there is no record.
\<close>

definition parse_benchmark_data ::
  "documents \<Rightarrow> filesystem \<Rightarrow> frame_builder \<Rightarrow> string \<Rightarrow> exn + (warning list \<times> metrics_table)" where
  "parse_benchmark_data docs fs infer json_path =
     (case load_hyperfine_results docs json_path of
        Inl e \<Rightarrow>
          if e = JSONDecodeError then Inr ([Skipping_invalid_json json_path], []) else Inl e
      | Inr data \<Rightarrow>
          (let file_size = get_file_size_from_results fs json_path
           in case getitem data ''results'' of
                Inl e \<Rightarrow> Inl e
              | Inr results \<Rightarrow>
                  (case iterate results of
                     Inl e \<Rightarrow> Inl e
                   | Inr entries \<Rightarrow>
                       (case collect entries of
                          Inl e \<Rightarrow> Inl e
                        | Inr (warnings, records) \<Rightarrow>
                            if records = []
                            then Inr (warnings @ [No_successful_results json_path], [])
                            else (case pl_DataFrame infer records of
                                    Inl e \<Rightarrow> Inl e
                                  | Inr table \<Rightarrow> Inr (warnings, table))))))"









section \<open>Binary64 arithmetic\<close>

text \<open>
  The derived throughput values are Python floats. A float is a finite value, an
  infinity or NaN. The model keeps the exact real of a finite value and leaves the
  rounding of binary64 out, but not its range: \<open>fl x\<close> is what an operation with the
  exact result \<open>x\<close> returns, which is an infinity from the overflow threshold
  \<open>2^1024 - 2^970\<close> on (half a unit beyond the largest finite value) and zero up to
  \<open>2^-1075\<close> (half the smallest subnormal). The two zeros are one value.
\<close>

datatype float64 = Fin real | PInf | NInf | NaN

definition overflow_threshold :: real where
  "overflow_threshold = 2 ^ 1024 - 2 ^ 970"

definition underflow_threshold :: real where
  "underflow_threshold = 1 / 2 ^ 1075"

definition fl :: "real \<Rightarrow> float64" where
  "fl x =
     (if overflow_threshold \<le> x then PInf
      else if x \<le> - overflow_threshold then NInf
      else if \<bar>x\<bar> \<le> underflow_threshold then Fin 0
      else Fin x)"

definition negative :: "float64 \<Rightarrow> bool" where
  "negative a = (case a of Fin x \<Rightarrow> x < 0 | NInf \<Rightarrow> True | _ \<Rightarrow> False)"

definition signed_inf :: "bool \<Rightarrow> float64" where
  "signed_inf neg = (if neg then NInf else PInf)"

text \<open>\<^verbatim>\<open>a * b\<close> on floats: it never raises; out of range it is an infinity.\<close>

definition float_mul :: "float64 \<Rightarrow> float64 \<Rightarrow> float64" where
  "float_mul a b =
     (case (a, b) of
        (Fin x, Fin y) \<Rightarrow> fl (x * y)
      | _ \<Rightarrow>
          if a = NaN \<or> b = NaN \<or> a = Fin 0 \<or> b = Fin 0 then NaN
          else signed_inf (negative a \<noteq> negative b))"

text \<open>\<^verbatim>\<open>a / b\<close> on floats: \<^verbatim>\<open>ZeroDivisionError\<close> when \<open>b\<close> is zero, whatever \<open>a\<close> is;
  out of range it is an infinity.\<close>

definition float_div :: "float64 \<Rightarrow> float64 \<Rightarrow> exn + float64" where
  "float_div a b =
     (if b = Fin 0 then Inl ZeroDivisionError
      else Inr (case (a, b) of
                  (Fin x, Fin y) \<Rightarrow> fl (x / y)
                | (Fin x, _) \<Rightarrow> if b = NaN then NaN else Fin 0
                | (NaN, _) \<Rightarrow> NaN
                | (_, Fin y) \<Rightarrow> signed_inf (negative a \<noteq> negative b)
                | _ \<Rightarrow> NaN))"

text \<open>\<^verbatim>\<open>a ** 2\<close> on a float: \<^verbatim>\<open>OverflowError\<close> when the square of a finite value is
  out of range, and no error when it underflows to zero.\<close>

definition float_pow2 :: "float64 \<Rightarrow> exn + float64" where
  "float_pow2 a =
     (case a of
        Fin x \<Rightarrow> if overflow_threshold \<le> x * x then Inl OverflowError else Inr (fl (x * x))
      | NaN \<Rightarrow> Inr NaN
      | _ \<Rightarrow> Inr PInf)"

text \<open>\<^verbatim>\<open>a / b\<close> on two non-negative integers: \<^verbatim>\<open>ZeroDivisionError\<close> for \<open>b = 0\<close>,
  \<^verbatim>\<open>OverflowError\<close> when the quotient is too large for a float.\<close>

definition int_truediv :: "nat \<Rightarrow> nat \<Rightarrow> exn + float64" where
  "int_truediv a b =
     (if b = 0 then Inl ZeroDivisionError
      else if overflow_threshold \<le> real a / real b then Inl OverflowError
      else Inr (fl (real a / real b)))"

text \<open>The exact values for which \<open>fl\<close> returns the value itself.\<close>

definition in_range :: "real \<Rightarrow> bool" where
  "in_range x = (x = 0 \<or> (underflow_threshold < \<bar>x\<bar> \<and> \<bar>x\<bar> < overflow_threshold))"

section \<open>Throughput\<close>

text \<open>
  The times of a row are finite reals; the derived columns \<^verbatim>\<open>throughput_gbs\<close>,
  \<^verbatim>\<open>throughput_stddev\<close> and \<^verbatim>\<open>file_size_mb\<close> are floats. \<^verbatim>\<open>plot_throughput\<close> has no
  handler, so an exception of the arithmetic leaves the function: every function below
  returns \<open>Inl e\<close> for it.
\<close>

record throughput_row =
  tr_size_value :: real
  tr_size_display :: string
  tr_command :: string
  throughput_gbs :: float64
  throughput_stddev :: float64
  file_size_mb :: float64
  mean_time :: real

text \<open>
  The inner loop of \<^verbatim>\<open>plot_throughput\<close> on one row: a dict is appended only under
  \<^verbatim>\<open>if mean_time > 0\<close>. In \<^verbatim>\<open>file_size_gb * stddev_time / (mean_time ** 2)\<close> the
  product is evaluated first, then the power, then the quotient.
\<close>

definition throughput_of_row ::
  "nat \<Rightarrow> float64 \<Rightarrow> real \<Rightarrow> string \<Rightarrow> row \<Rightarrow> exn + throughput_row list" where
  "throughput_of_row file_size_bytes file_size_gb size_value size_display r =
     (let mean_time = mean r;
          stddev_time = stddev_or_zero r
      in if mean_time > 0
         then (case float_div file_size_gb (Fin mean_time) of
                 Inl e \<Rightarrow> Inl e
               | Inr gbs \<Rightarrow>
                   (let product = float_mul file_size_gb (Fin stddev_time)
                    in case float_pow2 (Fin mean_time) of
                         Inl e \<Rightarrow> Inl e
                       | Inr square \<Rightarrow>
                           (case float_div product square of
                              Inl e \<Rightarrow> Inl e
                            | Inr sd \<Rightarrow>
                                (case int_truediv file_size_bytes (1024 ^ 2) of
                                   Inl e \<Rightarrow> Inl e
                                 | Inr mb \<Rightarrow>
                                     Inr [\<lparr> tr_size_value = size_value,
                                            tr_size_display = size_display,
                                            tr_command = command r,
                                            throughput_gbs = gbs,
                                            throughput_stddev = sd,
                                            file_size_mb = mb,
                                            mean_time = mean_time \<rparr>]))))
         else Inr [])"

text \<open>A loop whose body can raise: the rows of the iterations in order, or the first
  exception.\<close>

fun concat_results :: "(exn + 'a list) list \<Rightarrow> exn + 'a list" where
  "concat_results [] = Inr []"
| "concat_results (x # xs) =
     (case x of
        Inl e \<Rightarrow> Inl e
      | Inr ys \<Rightarrow> (case concat_results xs of Inl e \<Rightarrow> Inl e | Inr zs \<Rightarrow> Inr (ys @ zs)))"

text \<open>The outer loop body on one key: the three \<^verbatim>\<open>continue\<close> statements give no
  rows; \<^verbatim>\<open>file_size_gb\<close> is computed after them.\<close>

definition throughput_of_key ::
  "(string \<Rightarrow> real option) \<Rightarrow> filesystem \<Rightarrow> (string \<times> dataframe) list \<Rightarrow>
   (string \<times> string) list \<Rightarrow> string \<Rightarrow> exn + throughput_row list" where
  "throughput_of_key float_of fs all_data available_results key =
     (let df = frame_of all_data key
      in case map_of available_results key of
           None \<Rightarrow> Inr []
         | Some json_path \<Rightarrow>
             (case get_file_size_bytes fs json_path of
                None \<Rightarrow> Inr []
              | Some file_size_bytes \<Rightarrow>
                  if file_size_bytes = 0 then Inr []
                  else (case extract_size_info float_of key of
                          (None, size_key, size_display) \<Rightarrow> Inr []
                        | (Some size_value, size_key, size_display) \<Rightarrow>
                            (case int_truediv file_size_bytes (1024 ^ 3) of
                               Inl e \<Rightarrow> Inl e
                             | Inr file_size_gb \<Rightarrow>
                                 concat_results
                                   (map (throughput_of_row file_size_bytes file_size_gb
                                           size_value size_display) df)))))"



section \<open>Scaling\<close>

record scaling_row =
  sr_size_value :: real
  sr_size_display :: string
  sr_command :: string
  sr_mean :: real
  sr_stddev :: real

definition scaling_of_key ::
  "(string \<Rightarrow> real option) \<Rightarrow> (string \<times> dataframe) list \<Rightarrow> string \<Rightarrow> scaling_row list" where
  "scaling_of_key float_of all_data key =
     (let df = frame_of all_data key
      in case extract_size_info float_of key of
           (None, size_key, size_display) \<Rightarrow> []
         | (Some size_value, size_key, size_display) \<Rightarrow>
             map (\<lambda>r. \<lparr> sr_size_value = size_value,
                         sr_size_display = size_display,
                         sr_command = command r,
                         sr_mean = mean r,
                         sr_stddev = stddev_or_zero r \<rparr>) df)"

definition scaling_rows ::
  "(string \<Rightarrow> real option) \<Rightarrow> (string \<times> dataframe) list \<Rightarrow> string \<Rightarrow> string \<Rightarrow> scaling_row list" where
  "scaling_rows float_of all_data cache_type file_format =
     concat (map (scaling_of_key float_of all_data) (matching_keys all_data cache_type file_format))"

text \<open>\<^verbatim>\<open>scaling_df.filter(pl.col('command') == parser).sort('size_value')\<close>.\<close>

definition parser_data :: "scaling_row list \<Rightarrow> string \<Rightarrow> scaling_row list" where
  "parser_data scaling_df parser = sort_key sr_size_value (filter (\<lambda>r. sr_command r = parser) scaling_df)"

text \<open>
  The scaling analysis printed for one parser, on its rows in the order of the sort:
  \<open>Some (time_ratio, size_ratio, scaling_efficiency)\<close> when the two lines are printed,
  \<open>None\<close> otherwise. Index \<^verbatim>\<open>[0]\<close> is the first and \<^verbatim>\<open>[-1]\<close> the last row.
\<close>

definition scaling_analysis :: "scaling_row list \<Rightarrow> (real \<times> real \<times> real) option" where
  "scaling_analysis pd =
     (if length pd \<ge> 2
      then (let smallest_time = sr_mean (hd pd);
                largest_time = sr_mean (last pd);
                smallest_size = sr_size_value (hd pd);
                largest_size = sr_size_value (last pd)
            in if smallest_time > 0 \<and> smallest_size > 0
               then (let time_ratio = largest_time / smallest_time;
                         size_ratio = largest_size / smallest_size;
                         scaling_efficiency = (if size_ratio > 0 then time_ratio / size_ratio else 0)
                     in Some (time_ratio, size_ratio, scaling_efficiency))
               else None)
      else None)"

section \<open>Grid of mean times\<close>

text \<open>
  \<^verbatim>\<open>plot_mean_times\<close> with \<^verbatim>\<open>grid_layout=True\<close>, up to the data each chart of the grid
  is built from. \<^verbatim>\<open>organized_data\<close> is a dict from \<open>(compression, size)\<close> to
  \<open>(name, df)\<close>: a later table with the same key replaces the earlier one in place, as
  \<^const>\<open>AList.update\<close> does.
\<close>

type_synonym organized = "((string \<times> string) \<times> (string \<times> dataframe)) list"

definition organize_step :: "string \<Rightarrow> string \<times> dataframe \<Rightarrow> organized \<Rightarrow> organized" where
  "organize_step cache_type item organized_data =
     (case item of (name, df) \<Rightarrow>
        if length df = 0 then organized_data
        else (case parse_benchmark_key name of
                None \<Rightarrow> organized_data
              | Some (sz, cache, compression) \<Rightarrow>
                  if cache \<noteq> cache_type then organized_data
                  else AList.update (compression, sz) (name, df) organized_data))"

definition organized_data :: "(string \<times> dataframe) list \<Rightarrow> string \<Rightarrow> organized" where
  "organized_data data_dict cache_type = fold (organize_step cache_type) data_dict []"

record grid_row =
  g_command :: string
  g_mean :: real
  g_stddev :: real
  g_min :: real
  g_max :: real
  g_compression :: string
  g_size :: string
  g_benchmark_name :: string

definition combined_of :: "(string \<times> string) \<times> (string \<times> dataframe) \<Rightarrow> grid_row list" where
  "combined_of entry =
     (case entry of ((compression, sz), (name, df)) \<Rightarrow>
        map (\<lambda>r. \<lparr> g_command = command r,
                    g_mean = mean r,
                    g_stddev = stddev_or_zero r,
                    g_min = min_time r,
                    g_max = max_time r,
                    g_compression = compression,
                    g_size = sz,
                    g_benchmark_name = name \<rparr>) df)"

definition combined_rows :: "organized \<Rightarrow> grid_row list" where
  "combined_rows organized = concat (map combined_of organized)"

text \<open>\<^verbatim>\<open>sorted(combined_df['command'].unique().to_list())\<close>, the domain of the colour
  scale of every chart.\<close>

definition all_parsers :: "grid_row list \<Rightarrow> string list" where
  "all_parsers combined_df = sort (remdups (map g_command combined_df))"

definition compression_label :: "string \<Rightarrow> string" where
  "compression_label compression =
     (if compression = ''raw'' then ''Raw FASTQ''
      else if compression = ''gz'' then ''Gzipped''
      else if compression = ''bgz'' then ''Bgzipped''
      else compression)"

text \<open>One panel of the grid: a bar chart with its title, its rows and the domain of its
  colour scale, or the placeholder chart with the text \<^verbatim>\<open>No Data\<close> and its title.\<close>

datatype cell =
    Bar_chart string "grid_row list" "string list"
  | No_data string

definition chart_title :: "(string \<times> string) list option \<Rightarrow> string \<Rightarrow> string \<Rightarrow> string" where
  "chart_title file_sizes compression name =
     (case file_sizes of
        None \<Rightarrow> compression_label compression
      | Some fsz \<Rightarrow>
          (case map_of fsz name of
             None \<Rightarrow> compression_label compression
           | Some t \<Rightarrow> compression_label compression @ '' ('' @ t @ '')''))"

definition grid_cell ::
  "organized \<Rightarrow> grid_row list \<Rightarrow> string list \<Rightarrow> (string \<times> string) list option \<Rightarrow>
   string \<Rightarrow> string \<Rightarrow> cell" where
  "grid_cell organized combined_df parsers file_sizes sz compression =
     (case map_of organized (compression, sz) of
        Some (name, df) \<Rightarrow>
          Bar_chart (chart_title file_sizes compression name)
                    (filter (\<lambda>g. g_compression g = compression \<and> g_size g = sz) combined_df)
                    parsers
      | None \<Rightarrow> No_data (compression_label compression))"

definition row_label :: "string \<Rightarrow> string" where
  "row_label sz = (if sz \<noteq> ''default'' then upper sz else ''Default'') @ '' reads''"

definition grid_rows ::
  "organized \<Rightarrow> grid_row list \<Rightarrow> string list \<Rightarrow> (string \<times> string) list option \<Rightarrow>
   string list \<Rightarrow> string list \<Rightarrow> (string \<times> cell list) list" where
  "grid_rows organized combined_df parsers file_sizes sizes compressions =
     concat (map (\<lambda>sz.
                    (let row_charts = map (grid_cell organized combined_df parsers file_sizes sz)
                                          compressions
                     in if row_charts \<noteq> [] then [(row_label sz, row_charts)] else []))
                 sizes)"

definition plot_mean_times ::
  "(string \<Rightarrow> real option) \<Rightarrow> (string \<times> dataframe) list \<Rightarrow> (string \<times> string) list option \<Rightarrow>
   string \<Rightarrow> (string \<times> cell list) list option" where
  "plot_mean_times float_of data_dict file_sizes cache_type =
     (let organized = organized_data data_dict cache_type
      in if organized = [] then None
         else (let compressions = sort_key compression_rank (remdups (map (\<lambda>e. fst (fst e)) organized));
                   sizes = sorted_sizes float_of (map (\<lambda>e. snd (fst e)) organized);
                   combined_df = combined_rows organized
               in if combined_df = [] then None
                  else (let rows = grid_rows organized combined_df (all_parsers combined_df)
                                             file_sizes sizes compressions
                        in if rows = [] then None else Some rows)))"

text \<open>
  The entry a table contributes to \<^verbatim>\<open>organized_data\<close>, read off the loop body: none for
  an empty table, an unparsable name or another cache state, else the key
  \<open>(compression, size)\<close> with the value \<open>(name, df)\<close>.
\<close>

definition placement ::
  "string \<Rightarrow> string \<times> dataframe \<Rightarrow> ((string \<times> string) \<times> (string \<times> dataframe)) option" where
  "placement cache_type item =
     (case item of (name, df) \<Rightarrow>
        if length df = 0 then None
        else (case parse_benchmark_key name of
                None \<Rightarrow> None
              | Some (sz, cache, compression) \<Rightarrow>
                  if cache \<noteq> cache_type then None
                  else Some ((compression, sz), (name, df))))"

section \<open>Sample inputs\<close>

text \<open>A file system with the fixture directory, a raw fixture of 1 GiB for the size
  \<^verbatim>\<open>1m\<close>, and a gzip fixture whose lookup fails.\<close>

definition sample_fs :: filesystem where
  "sample_fs p =
     (if p = ''test-data'' then Inr (Some 4096)
      else if p = ''test-data/1m.fastq'' then Inr (Some 1073741824)
      else if p = ''test-data/1m.fastq.gz'' then Inl OSError
      else Inr None)"


text \<open>Tables for three benchmark keys, and the result file of each key. The command
  \<^verbatim>\<open>noop\<close> has a mean of zero; the size \<^verbatim>\<open>10m\<close> has no fixture in \<open>sample_fs\<close>.\<close>

definition sample_data :: "(string \<times> dataframe) list" where
  "sample_data =
     [(''1m_hot_raw'',
         [\<lparr> command = ''needletail'', mean = 2, stddev = Some (1/2), min_time = 3/2, max_time = 5/2 \<rparr>,
          \<lparr> command = ''noop'', mean = 0, stddev = None, min_time = 0, max_time = 0 \<rparr>]),
      (''10m_hot_raw'',
         [\<lparr> command = ''needletail'', mean = 20, stddev = Some 1, min_time = 19, max_time = 21 \<rparr>]),
      (''1m_cold_raw'',
         [\<lparr> command = ''biopython'', mean = 8, stddev = Some 1, min_time = 7, max_time = 9 \<rparr>])]"

definition sample_results :: "(string \<times> string) list" where
  "sample_results =
     [(''1m_hot_raw'', ''benchmark_results/b1/1m/hot_raw.json''),
      (''10m_hot_raw'', ''benchmark_results/b1/10m/hot_raw.json''),
      (''1m_cold_raw'', ''benchmark_results/b1/1m/cold_raw.json'')]"

text \<open>Tables for a hot raw run at \<^verbatim>\<open>1m\<close>, a hot gzip run at \<^verbatim>\<open>10m\<close> and a cold raw run
  at \<^verbatim>\<open>1m\<close>, each with a command of its own.\<close>

definition sample_grid_data :: "(string \<times> dataframe) list" where
  "sample_grid_data =
     [(''1m_hot_raw'',
         [\<lparr> command = ''needletail'', mean = 2, stddev = Some (1/2), min_time = 3/2, max_time = 5/2 \<rparr>]),
      (''10m_hot_gz'',
         [\<lparr> command = ''kseq'', mean = 30, stddev = None, min_time = 29, max_time = 31 \<rparr>]),
      (''1m_cold_raw'',
         [\<lparr> command = ''biopython'', mean = 8, stddev = Some 1, min_time = 7, max_time = 9 \<rparr>])]"

section \<open>Properties\<close>

subsection \<open>Strings\<close>

lemma lower_char_underscore: "(lower_char c = CHR ''_'') = (c = CHR ''_'')"
proof -
  define n where "n = (of_char c :: nat)"
  have n95: "(of_char (CHR ''_'') :: nat) = 95" by simp
  have lcd: "lower_char c = (if (65 \<le> n \<and> n \<le> 90) \<or> (192 \<le> n \<and> n \<le> 222 \<and> n \<noteq> 215)
         then char_of (n + 32) else c)"
    unfolding lower_char_def Let_def n_def ..
  show ?thesis
  proof (cases "(65 \<le> n \<and> n \<le> 90) \<or> (192 \<le> n \<and> n \<le> 222 \<and> n \<noteq> 215)")
    case True
    then have lc: "lower_char c = char_of (n + 32)"
      unfolding lcd by (rule if_P)
    have "(of_char (char_of (n + 32)) :: nat) = (n + 32) mod 256"
      by (rule of_char_of)
    also have "\<dots> = n + 32" using True by auto
    finally have v: "(of_char (lower_char c) :: nat) = n + 32"
      unfolding lc .
    have w: "n + 32 \<noteq> 95" using True by auto
    have a: "lower_char c \<noteq> CHR ''_''"
    proof
      assume h: "lower_char c = CHR ''_''"
      have "n + 32 = 95" using v unfolding h n95 by (rule sym)
      with w show False ..
    qed
    have u: "n \<noteq> 95" using True by auto
    have b: "c \<noteq> CHR ''_''"
    proof
      assume h: "c = CHR ''_''"
      have "n = 95" unfolding n_def h by (rule n95)
      with u show False ..
    qed
    from a b show ?thesis by blast
  next
    case False
    then have "lower_char c = c"
      unfolding lcd by (rule if_not_P)
    then show ?thesis by (rule arg_cong)
  qed
qed

lemma lower_char_underscore2: "(CHR ''_'' = lower_char c) = (CHR ''_'' = c)"
proof -
  have "(CHR ''_'' = lower_char c) = (lower_char c = CHR ''_'')" by (rule eq_commute)
  also have "\<dots> = (c = CHR ''_'')" by (rule lower_char_underscore)
  also have "\<dots> = (CHR ''_'' = c)" by (rule eq_commute)
  finally show ?thesis .
qed

lemma underscore_lower: "CHR ''_'' \<notin> set s \<Longrightarrow> CHR ''_'' \<notin> set (lower s)"
  unfolding lower_def by (induction s) (simp_all add: lower_char_underscore2)

lemma lower_append: "lower (a @ b) = lower a @ lower b"
  by (simp add: lower_def)

lemma lower_tokens:
  "lower ''_'' = ''_''" "lower ''hot'' = ''hot''" "lower ''cold'' = ''cold''"
  "lower ''raw'' = ''raw''" "lower ''gz'' = ''gz''" "lower ''bgz'' = ''bgz''"
  by code_simp+

lemma contains_sublist: "contains sub s \<longleftrightarrow> sublist sub s"
  by (induction s) (auto simp: sublist_Cons_right)

lemma split_aux_no_sep:
  "d \<notin> set p \<Longrightarrow> split_aux (d # ds) acc p = [acc @ p]"
  by (induction p arbitrary: acc) (auto simp: prefix_Cons)

lemma split_aux_first:
  "d \<notin> set p \<Longrightarrow>
   split_aux (d # ds) acc (p @ (d # ds) @ rest) = (acc @ p) # split_aux (d # ds) [] rest"
  by (induction p arbitrary: acc) (auto simp: prefix_Cons)

lemma split_aux_nonempty: "split_aux sep acc s \<noteq> []"
  by (induction sep acc s rule: split_aux.induct) auto

lemma split_aux_single: "split_aux sep acc s = [x] \<Longrightarrow> x = acc @ s"
  by (induction sep acc s rule: split_aux.induct) (auto simp: split_aux_nonempty split: if_splits)

lemma split_three:
  assumes "CHR ''_'' \<notin> set a" "CHR ''_'' \<notin> set b" "CHR ''_'' \<notin> set c"
  shows "split ''_'' (a @ ''_'' @ b @ ''_'' @ c) = [a, b, c]"
proof -
  have 1: "split_aux ''_'' [] (a @ ''_'' @ (b @ ''_'' @ c)) = ([] @ a) # split_aux ''_'' [] (b @ ''_'' @ c)"
    using assms(1) by (rule split_aux_first)
  have 2: "split_aux ''_'' [] (b @ ''_'' @ c) = ([] @ b) # split_aux ''_'' [] c"
    using assms(2) by (rule split_aux_first)
  have 3: "split_aux ''_'' [] c = [[] @ c]"
    using assms(3) by (rule split_aux_no_sep)
  show ?thesis unfolding split_def 1 2 3 by simp
qed

lemma split_aux_two: "split_aux sep acc s = x # y # ys \<Longrightarrow> sublist sep s"
proof (induction sep acc s arbitrary: x rule: split_aux.induct)
  case (1 sep acc)
  then show ?case by simp
next
  case (2 sep acc c cs)
  show ?case
  proof (cases "sep \<noteq> [] \<and> prefix sep (c # cs)")
    case True
    then show ?thesis by (simp add: prefix_imp_sublist)
  next
    case False
    with "2.prems" have "split_aux sep (acc @ [c]) cs = x # y # ys" by auto
    with "2.IH"(2)[OF False] have "sublist sep cs" by blast
    then show ?thesis by (simp add: sublist_Cons_right)
  qed
qed

lemma infix_contains_really_cold: "sublist ''really_cold'' ''_really_cold_''"
  unfolding contains_sublist[symmetric] by code_simp

subsection \<open>Benchmark keys\<close>

lemma token_no_underscore:
  "c \<in> set compression_tokens \<Longrightarrow> CHR ''_'' \<notin> set c"
  "c \<in> set cache_tokens \<Longrightarrow> CHR ''_'' \<notin> set c"
  by (auto simp: compression_tokens_def cache_tokens_def)

lemma token_lower:
  "c \<in> set compression_tokens \<Longrightarrow> lower c = c"
  "c \<in> set cache_tokens \<Longrightarrow> lower c = c"
  by (auto simp: compression_tokens_def cache_tokens_def lower_tokens)

text \<open>
  Claim C5, as the source has it. The name \<^verbatim>\<open>f"{size}_{cache}_{compression}"\<close> with
  \<open>cache\<close> in \<open>{hot, cold}\<close> and \<open>compression\<close> in \<open>{raw, gz, bgz}\<close> parses to
  \<open>(size.lower(), cache, compression)\<close>, provided the size label has no underscore and
  the lower-cased name does not contain \<^verbatim>\<open>really_cold\<close>. The size comes back exactly when
  it is already in lower case.
\<close>

theorem three_part_name_roundtrip:
  assumes "CHR ''_'' \<notin> set sz"
    and "cache \<in> set cache_tokens"
    and "compression \<in> set compression_tokens"
    and "\<not> contains ''really_cold'' (lower (sz @ ''_'' @ cache @ ''_'' @ compression))"
  shows "parse_benchmark_key (sz @ ''_'' @ cache @ ''_'' @ compression)
         = Some (lower sz, cache, compression)"
proof -
  let ?n = "sz @ ''_'' @ cache @ ''_'' @ compression"
  have low: "lower ?n = lower sz @ ''_'' @ cache @ ''_'' @ compression"
    by (simp only: lower_append lower_tokens token_lower(1)[OF assms(3)] token_lower(2)[OF assms(2)])
  have sp: "split ''_'' (lower ?n) = [lower sz, cache, compression]"
    unfolding low
    by (rule split_three[OF underscore_lower[OF assms(1)] token_no_underscore(2)[OF assms(2)]
          token_no_underscore(1)[OF assms(3)]])
  have tp: "parse_three_part [lower sz, cache, compression] = Some (lower sz, cache, compression)"
    using assms(2,3) by (simp add: parse_three_part_def)
  show ?thesis
    unfolding parse_benchmark_key_def Let_def if_not_P[OF assms(4)] sp tp by simp
qed

theorem three_part_name_roundtrip_witness:
  "parse_benchmark_key (''0.1m'' @ ''_'' @ ''cold'' @ ''_'' @ ''bgz'')
   = Some (lower ''0.1m'', ''cold'', ''bgz'')"
proof -
  have a: "CHR ''_'' \<notin> set ''0.1m''" by simp
  have b: "''cold'' \<in> set cache_tokens" by (simp add: cache_tokens_def)
  have c: "''bgz'' \<in> set compression_tokens" by (simp add: compression_tokens_def)
  have d: "\<not> contains ''really_cold'' (lower (''0.1m'' @ ''_'' @ ''cold'' @ ''_'' @ ''bgz''))"
    by code_simp
  show ?thesis by (rule three_part_name_roundtrip[OF a b c d])
qed

text \<open>Where C5 fails as stated: an upper-case size label comes back in lower case, and
  the labels \<^verbatim>\<open>really\<close> (with \<^verbatim>\<open>cold\<close>) and \<^verbatim>\<open>a_b\<close> give no key at all.\<close>

theorem three_part_name_counterexample:
  "parse_benchmark_key (''1M'' @ ''_'' @ ''hot'' @ ''_'' @ ''raw'') = Some (''1m'', ''hot'', ''raw'')
   \<and> parse_benchmark_key (''really'' @ ''_'' @ ''cold'' @ ''_'' @ ''raw'') = None
   \<and> parse_benchmark_key (''a_b'' @ ''_'' @ ''hot'' @ ''_'' @ ''gz'') = None"
  by code_simp

text \<open>
  Claim C6, as the source has it. When the lower-cased name splits on the infix
  \<^verbatim>\<open>_really_cold_\<close> into exactly two parts \<open>[p, c]\<close>: for \<open>c\<close> in \<open>{raw, gz, bgz}\<close> the
  key is \<open>(p, really_cold, c)\<close>, and for any other \<open>c\<close> the name is invalid. For every
  name whose lower-cased form contains \<^verbatim>\<open>really_cold\<close> the result is that of the
  really-cold branch alone, so its cache state is never \<open>hot\<close> or \<open>cold\<close>, and the name is
  invalid when the split does not have exactly two parts.
\<close>

theorem really_cold_name_parse:
  assumes "split ''_really_cold_'' (lower name) = [p, c]"
  shows "(c \<in> set compression_tokens \<longrightarrow>
            parse_benchmark_key name = Some (p, ''really_cold'', c))
       \<and> (c \<notin> set compression_tokens \<longrightarrow> parse_benchmark_key name = None)
       \<and> (\<forall>n. contains ''really_cold'' (lower n) \<longrightarrow>
              parse_benchmark_key n = parse_really_cold (lower n)
            \<and> (\<forall>s ca co. parse_benchmark_key n = Some (s, ca, co) \<longrightarrow> ca = ''really_cold''))
       \<and> (\<forall>n. contains ''really_cold'' (lower n)
              \<and> length (split ''_really_cold_'' (lower n)) \<noteq> 2
            \<longrightarrow> parse_benchmark_key n = None)"
proof (intro conjI impI allI)
  from assms have "sublist ''_really_cold_'' (lower name)"
    unfolding split_def by (rule split_aux_two)
  with infix_contains_really_cold have cont: "contains ''really_cold'' (lower name)"
    unfolding contains_sublist by (rule sublist_order.order_trans)
  have key: "parse_benchmark_key name = parse_really_cold (lower name)"
    unfolding parse_benchmark_key_def Let_def using cont by simp
  show "parse_benchmark_key name = Some (p, ''really_cold'', c)"
    if "c \<in> set compression_tokens"
    unfolding key parse_really_cold_def Let_def assms using that by simp
  show "parse_benchmark_key name = None" if "c \<notin> set compression_tokens"
    unfolding key parse_really_cold_def Let_def assms using that by simp
  show k: "parse_benchmark_key n = parse_really_cold (lower n)"
    if "contains ''really_cold'' (lower n)" for n
    using that unfolding parse_benchmark_key_def Let_def by simp
  show "ca = ''really_cold''"
    if "contains ''really_cold'' (lower n)" and "parse_benchmark_key n = Some (s, ca, co)"
    for n s ca co
    using that(2) unfolding k[OF that(1)] parse_really_cold_def Let_def
    by (simp split: if_splits)
  show "parse_benchmark_key n = None"
    if "contains ''really_cold'' (lower n) \<and> length (split ''_really_cold_'' (lower n)) \<noteq> 2"
    for n
    using that unfolding parse_benchmark_key_def parse_really_cold_def Let_def by simp
qed

theorem really_cold_name_parse_witness:
  "parse_benchmark_key ''A_b_really_cold_raw'' = Some (''a_b'', ''really_cold'', ''raw'')
   \<and> parse_benchmark_key ''1m_really_cold_zip'' = None"
proof -
  have a: "split ''_really_cold_'' (lower ''A_b_really_cold_raw'') = [''a_b'', ''raw'']"
    by code_simp
  have c: "''raw'' \<in> set compression_tokens" by (simp add: compression_tokens_def)
  have a': "split ''_really_cold_'' (lower ''1m_really_cold_zip'') = [''1m'', ''zip'']"
    by code_simp
  have c': "''zip'' \<notin> set compression_tokens" by (simp add: compression_tokens_def)
  have 1: "parse_benchmark_key ''A_b_really_cold_raw'' = Some (''a_b'', ''really_cold'', ''raw'')"
    by (rule mp[OF conjunct1[OF really_cold_name_parse[OF a]] c])
  have 2: "parse_benchmark_key ''1m_really_cold_zip'' = None"
    by (rule mp[OF conjunct1[OF conjunct2[OF really_cold_name_parse[OF a']]] c'])
  from 1 2 show ?thesis ..
qed

text \<open>Where C6 fails as stated: the name below contains the infix followed by the token
  \<^verbatim>\<open>raw\<close>, and it is invalid, because the split on the infix has three parts.\<close>

theorem really_cold_name_counterexample:
  "parse_benchmark_key (''a_really_cold_b'' @ ''_really_cold_'' @ ''raw'') = None"
  by code_simp

subsection \<open>Size ordering\<close>

lemmas size_key_eval =
  size_sort_key_def strip_unit_def replace_char_empty_def float_decimal_def is_digit_def
  digits_value_def digit_value_def

lemma size_keys_literal:
  "size_sort_key float_decimal ''default'' = 0"
  "size_sort_key float_decimal ''0.1m'' = 1/10"
  "size_sort_key float_decimal ''1m'' = 1"
  "size_sort_key float_decimal ''10m'' = 10"
  "size_sort_key float_decimal ''1000m'' = 1000"
  "size_sort_key float_decimal ''10mb'' = 999"
  by (simp_all add: size_key_eval)

lemma sorted_sizes_literal:
  assumes "mset xs = mset [''default'', ''0.1m'', ''1m'', ''10m'']"
  shows "sorted_sizes float_decimal xs = [''default'', ''0.1m'', ''1m'', ''10m'']"
proof -
  let ?ys = "[''default'', ''0.1m'', ''1m'', ''10m'']"
  have "distinct ?ys" by simp
  then have d: "distinct xs"
    using mset_eq_imp_distinct_iff[OF assms] by (rule iffD2[rotated])
  have s: "set xs = set ?ys" using assms by (rule mset_eq_setD)
  have inj: "inj_on (size_sort_key float_decimal) (set xs)"
    unfolding s by (simp add: size_keys_literal)
  have srt: "sorted (map (size_sort_key float_decimal) ?ys)"
    by (simp add: size_keys_literal)
  show ?thesis
    unfolding sorted_sizes_def distinct_remdups_id[OF d]
    by (rule sort_key_inj_key_eq[OF assms inj srt])
qed

text \<open>
  Claim C7, as the source has it. The key of \<^verbatim>\<open>default\<close> is 0; the key of any other
  label is the float left after deleting every \<^verbatim>\<open>m\<close> and \<^verbatim>\<open>M\<close>; a label that
  \<^verbatim>\<open>float\<close> rejects has the key 999, not infinity, so it sorts after every parsable
  label of magnitude below 999. The labels \<^verbatim>\<open>default, 0.1m, 1m, 10m\<close>, in whatever
  order the set yields them, sort as written, and \<^verbatim>\<open>1m\<close> sorts before \<^verbatim>\<open>10m\<close>.
\<close>

theorem size_sort_key_order:
  "size_sort_key float_of ''default'' = 0
    \<and> (s \<noteq> ''default'' \<and> float_of (strip_unit s) = Some m \<longrightarrow> size_sort_key float_of s = m)
    \<and> (u \<noteq> ''default'' \<and> float_of (strip_unit u) = None \<longrightarrow> size_sort_key float_of u = 999)
    \<and> (s \<noteq> ''default'' \<and> float_of (strip_unit s) = Some m \<and> m < 999
         \<and> u \<noteq> ''default'' \<and> float_of (strip_unit u) = None
         \<longrightarrow> size_sort_key float_of s < size_sort_key float_of u)
    \<and> (\<forall>xs. mset xs = mset [''default'', ''0.1m'', ''1m'', ''10m'']
         \<longrightarrow> sorted_sizes float_decimal xs = [''default'', ''0.1m'', ''1m'', ''10m''])
    \<and> size_sort_key float_decimal ''1m'' < size_sort_key float_decimal ''10m''"
proof (intro conjI impI allI)
  show "size_sort_key float_of ''default'' = 0" by (simp add: size_sort_key_def)
  show "size_sort_key float_of s = m" if "s \<noteq> ''default'' \<and> float_of (strip_unit s) = Some m"
    using that by (simp add: size_sort_key_def)
  show "size_sort_key float_of u = 999" if "u \<noteq> ''default'' \<and> float_of (strip_unit u) = None"
    using that by (simp add: size_sort_key_def)
  show "size_sort_key float_of s < size_sort_key float_of u"
    if "s \<noteq> ''default'' \<and> float_of (strip_unit s) = Some m \<and> m < 999
         \<and> u \<noteq> ''default'' \<and> float_of (strip_unit u) = None"
    using that by (simp add: size_sort_key_def)
  show "sorted_sizes float_decimal xs = [''default'', ''0.1m'', ''1m'', ''10m'']"
    if "mset xs = mset [''default'', ''0.1m'', ''1m'', ''10m'']" for xs
    using that by (rule sorted_sizes_literal)
  show "size_sort_key float_decimal ''1m'' < size_sort_key float_decimal ''10m''"
    by (simp add: size_keys_literal)
qed

theorem size_sort_key_order_witness:
  "size_sort_key float_decimal ''1m'' < size_sort_key float_decimal ''10mb''"
proof -
  have a1: "''1m'' \<noteq> ''default''" by simp
  have a2: "float_decimal (strip_unit ''1m'') = Some 1" by (simp add: size_key_eval)
  have a3: "(1::real) < 999" by simp
  have a4: "''10mb'' \<noteq> ''default''" by simp
  have a5: "float_decimal (strip_unit ''10mb'') = None" by (simp add: size_key_eval)
  note t = size_sort_key_order[of float_decimal "''1m''" 1 "''10mb''"]
  note imp = conjunct1[OF conjunct2[OF conjunct2[OF conjunct2[OF t]]]]
  show ?thesis
    by (rule mp[OF imp]) (intro conjI a1 a2 a3 a4 a5)
qed

text \<open>Where C7 fails as stated: \<^verbatim>\<open>10mb\<close> is unparsable (\<^verbatim>\<open>float('10b')\<close> raises) and
  \<^verbatim>\<open>1000m\<close> is parsable, and the unparsable label sorts first.\<close>

theorem size_sort_key_order_counterexample:
  "size_sort_key float_decimal ''10mb'' < size_sort_key float_decimal ''1000m''
   \<and> sorted_sizes float_decimal [''1000m'', ''10mb''] = [''10mb'', ''1000m'']"
  by (simp add: sorted_sizes_def size_keys_literal)

subsection \<open>File-size resolver\<close>

lemma endswith_contains: "endswith s suf \<Longrightarrow> contains sub suf \<Longrightarrow> contains sub s"
  unfolding endswith_def contains_sublist
  by (meson sublist_order.order_trans suffix_imp_sublist)

lemma raw_json_contains_raw:
  "endswith p ''hot_raw.json'' \<Longrightarrow> contains ''raw'' p"
  "endswith p ''cold_raw.json'' \<Longrightarrow> contains ''raw'' p"
  by (erule endswith_contains, code_simp)+

lemma compression_of_path_cases:
  "compression_of_path p =
     (if contains ''raw'' p then Some (''.fastq'', ''raw'')
      else if contains ''bgz'' p then Some (''.fastq_bgzipped.gz'', ''bgzip'')
      else if contains ''gz'' p then Some (''.fastq.gz'', ''gzip'')
      else None)"
  unfolding compression_of_path_def using raw_json_contains_raw[of p] by auto

lemma really_cold_text_None: "(really_cold_text p = None) = (really_cold_bytes p = None)"
  by (simp add: really_cold_text_def really_cold_bytes_def)

lemma data_file_size_Some:
  "data_file_size fs t sfx = Inr (Some n) \<Longrightarrow>
   \<exists>ts. t = Some ts \<and> fs (''test-data/'' @ ts @ sfx) = Inr (Some n)"
  by (auto simp: data_file_size_def path_exists_def stat_st_size_def Let_def
           split: option.splits sum.splits bool.splits)

text \<open>
  Claim C10. On a path outside the really-cold tier both resolver functions choose the
  suffix by substring containment on the whole path string, in a fixed order:
  \<^verbatim>\<open>raw\<close> anywhere gives \<^verbatim>\<open>.fastq\<close> (also when \<^verbatim>\<open>gz\<close> occurs too), otherwise
  \<^verbatim>\<open>bgz\<close> gives \<^verbatim>\<open>.fastq_bgzipped.gz\<close>, otherwise \<^verbatim>\<open>gz\<close> gives \<^verbatim>\<open>.fastq.gz\<close>, and
  with none of the three the result is \<^verbatim>\<open>None\<close>. A size that is returned is the size
  of the file \<^verbatim>\<open>test-data/<test_size><suffix>\<close> with the suffix so chosen. An exception
  inside the \<^verbatim>\<open>try\<close> block never leaves the function: the result is \<^verbatim>\<open>None\<close>.
\<close>

theorem resolver_suffix_precedence:
  "(contains ''raw'' p \<longrightarrow> compression_of_path p = Some (''.fastq'', ''raw''))
 \<and> (\<not> contains ''raw'' p \<and> contains ''bgz'' p \<longrightarrow>
      compression_of_path p = Some (''.fastq_bgzipped.gz'', ''bgzip''))
 \<and> (\<not> contains ''raw'' p \<and> \<not> contains ''bgz'' p \<and> contains ''gz'' p \<longrightarrow>
      compression_of_path p = Some (''.fastq.gz'', ''gzip''))
 \<and> (\<not> contains ''raw'' p \<and> \<not> contains ''bgz'' p \<and> \<not> contains ''gz'' p \<longrightarrow>
      compression_of_path p = None)
 \<and> (really_cold_bytes p = None \<and> compression_of_path p = None \<longrightarrow>
      get_file_size_bytes fs p = None \<and> get_file_size_from_results fs p = None)
 \<and> (really_cold_bytes p = None \<and> get_file_size_bytes fs p = Some n \<longrightarrow>
      (\<exists>ts sfx ct. test_size_of p = Some ts \<and> compression_of_path p = Some (sfx, ct)
           \<and> fs (''test-data/'' @ ts @ sfx) = Inr (Some n)))
 \<and> (really_cold_bytes p = None \<and> get_file_size_from_results fs p = Some t \<longrightarrow>
      (\<exists>ts sfx ct n. test_size_of p = Some ts \<and> compression_of_path p = Some (sfx, ct)
           \<and> fs (''test-data/'' @ ts @ sfx) = Inr (Some n) \<and> t = Measured_text n ct))
 \<and> (\<forall>e. get_file_size_bytes_try fs p = Inl e \<longrightarrow> get_file_size_bytes fs p = None)
 \<and> (\<forall>e. get_file_size_from_results_try fs p = Inl e \<longrightarrow> get_file_size_from_results fs p = None)"
proof (intro conjI impI allI)
  show "compression_of_path p = Some (''.fastq'', ''raw'')" if "contains ''raw'' p"
    using that by (simp add: compression_of_path_cases)
  show "compression_of_path p = Some (''.fastq_bgzipped.gz'', ''bgzip'')"
    if "\<not> contains ''raw'' p \<and> contains ''bgz'' p"
    using that by (simp add: compression_of_path_cases)
  show "compression_of_path p = Some (''.fastq.gz'', ''gzip'')"
    if "\<not> contains ''raw'' p \<and> \<not> contains ''bgz'' p \<and> contains ''gz'' p"
    using that by (simp add: compression_of_path_cases)
  show "compression_of_path p = None"
    if "\<not> contains ''raw'' p \<and> \<not> contains ''bgz'' p \<and> \<not> contains ''gz'' p"
    using that by (simp add: compression_of_path_cases)
  show "get_file_size_bytes fs p = None"
    if "really_cold_bytes p = None \<and> compression_of_path p = None"
    using that by (simp add: get_file_size_bytes_def get_file_size_bytes_try_def)
  show "get_file_size_from_results fs p = None"
    if "really_cold_bytes p = None \<and> compression_of_path p = None"
    using that really_cold_text_None[of p]
    by (simp add: get_file_size_from_results_def get_file_size_from_results_try_def)
  show "\<exists>ts sfx ct. test_size_of p = Some ts \<and> compression_of_path p = Some (sfx, ct)
           \<and> fs (''test-data/'' @ ts @ sfx) = Inr (Some n)"
    if h: "really_cold_bytes p = None \<and> get_file_size_bytes fs p = Some n"
  proof -
    from h obtain sfx ct where c: "compression_of_path p = Some (sfx, ct)"
      and d: "data_file_size fs (test_size_of p) sfx = Inr (Some n)"
      by (auto simp: get_file_size_bytes_def get_file_size_bytes_try_def Let_def
               split: option.splits sum.splits)
    from data_file_size_Some[OF d] c show ?thesis by blast
  qed
  show "\<exists>ts sfx ct n. test_size_of p = Some ts \<and> compression_of_path p = Some (sfx, ct)
           \<and> fs (''test-data/'' @ ts @ sfx) = Inr (Some n) \<and> t = Measured_text n ct"
    if h: "really_cold_bytes p = None \<and> get_file_size_from_results fs p = Some t"
  proof -
    from h really_cold_text_None[of p] obtain sfx ct n
      where c: "compression_of_path p = Some (sfx, ct)"
      and d: "data_file_size fs (test_size_of p) sfx = Inr (Some n)"
      and t: "t = Measured_text n ct"
      by (auto simp: get_file_size_from_results_def get_file_size_from_results_try_def Let_def
               split: option.splits sum.splits)
    from data_file_size_Some[OF d] c t show ?thesis by blast
  qed
  show "get_file_size_bytes fs p = None" if "get_file_size_bytes_try fs p = Inl e" for e
    using that by (simp add: get_file_size_bytes_def)
  show "get_file_size_from_results fs p = None"
    if "get_file_size_from_results_try fs p = Inl e" for e
    using that by (simp add: get_file_size_from_results_def)
qed

theorem resolver_suffix_precedence_witness:
  "compression_of_path ''benchmark_results/raw_gz/1m/hot_gz.json'' = Some (''.fastq'', ''raw'')
   \<and> get_file_size_bytes sample_fs ''benchmark_results/b1/1m/hot.json'' = None"
proof -
  have a: "contains ''raw'' ''benchmark_results/raw_gz/1m/hot_gz.json''" by code_simp
  have b: "really_cold_bytes ''benchmark_results/b1/1m/hot.json'' = None" by code_simp
  have c: "compression_of_path ''benchmark_results/b1/1m/hot.json'' = None" by code_simp
  note t1 = resolver_suffix_precedence[of "''benchmark_results/raw_gz/1m/hot_gz.json''"]
  note t2 = resolver_suffix_precedence[of "''benchmark_results/b1/1m/hot.json''" sample_fs]
  have 1: "compression_of_path ''benchmark_results/raw_gz/1m/hot_gz.json'' = Some (''.fastq'', ''raw'')"
    by (rule mp[OF conjunct1[OF t1] a])
  have 2: "get_file_size_bytes sample_fs ''benchmark_results/b1/1m/hot.json'' = None"
    using conjunct1[OF conjunct2[OF conjunct2[OF conjunct2[OF conjunct2[OF t2]]]]] b c by blast
  from 1 2 show ?thesis ..
qed

subsection \<open>Result loader\<close>



lemma is_float_the_float: "is_float v \<Longrightarrow> v = JFloat (the_float v)"
  by (cases v) (simp_all add: is_float_def the_float_def)







lemma collect_raises:
  "(\<forall>x \<in> set pre. \<forall>e'. process_result x \<noteq> Inl e') \<Longrightarrow> process_result r = Inl e \<Longrightarrow>
   collect (pre @ r # post) = Inl e"
proof (induction pre)
  case Nil
  then show ?case by simp
next
  case (Cons x pre)
  then obtain s where "process_result x = Inr s"
    by (cases "process_result x") auto
  with Cons show ?case by simp
qed

lemma collect_returns:
  "(\<forall>x \<in> set entries. \<forall>e. process_result x \<noteq> Inl e) \<Longrightarrow>
   \<exists>ws recs. collect entries = Inr (ws, recs)"
proof (induction entries)
  case Nil
  then show ?case by simp
next
  case (Cons x entries)
  then obtain s where s: "process_result x = Inr s"
    by (cases "process_result x") auto
  from Cons obtain ws recs where "collect entries = Inr (ws, recs)" by auto
  with s show ?case by (cases s) simp_all
qed

lemma process_result_not_dict:
  "(\<forall>kv. r \<noteq> JObj kv) \<Longrightarrow> process_result r = Inl AttributeError"
  by (cases r) (simp_all add: process_result_def)

lemma iterate_raises:
  "iterate v = Inl e \<longleftrightarrow>
     e = TypeError \<and> (\<forall>xs. v \<noteq> JArr xs) \<and> (\<forall>kv. v \<noteq> JObj kv) \<and> (\<forall>s. v \<noteq> JStr s)"
  by (cases v) (auto simp: iterate_def)

lemma process_result_raises:
  "process_result (JObj kv) = Inl e \<longleftrightarrow>
     (truthy (get_or kv ''exit_codes'' (JArr []))
        \<and> iterate (get_or kv ''exit_codes'' (JArr [])) = Inl e)
   \<or> (e = KeyError \<and> map_of kv ''command'' = None
        \<and> (\<exists>m. map_of kv ''mean'' = Some m \<and> m \<noteq> JNull)
        \<and> (\<exists>codes. (if truthy (get_or kv ''exit_codes'' (JArr []))
                      then iterate (get_or kv ''exit_codes'' (JArr [])) else Inr []) = Inr codes
                     \<and> \<not> list_ex ne_zero codes))"
  unfolding process_result_def
  by (auto simp: Let_def split: sum.splits option.splits if_splits)

lemma getitem_raises:
  "getitem d k = Inl e \<longleftrightarrow>
     (e = TypeError \<and> (\<forall>kv. d \<noteq> JObj kv)) \<or> (e = KeyError \<and> (\<exists>kv. d = JObj kv \<and> map_of kv k = None))"
  by (cases d) (auto simp: getitem_def split: option.splits)



text \<open>
  Claim C1, as the source has it. The loader handles one failure: when the load raises
  \<^verbatim>\<open>JSONDecodeError\<close> (which an empty file raises too) it prints a warning and returns
  the empty table. Every other exception leaves the function: any other exception of
  the load; \<^verbatim>\<open>TypeError\<close> when the decoded document is not a dict and \<^verbatim>\<open>KeyError\<close>
  when it is a dict without \<^verbatim>\<open>results\<close>; \<^verbatim>\<open>TypeError\<close> when \<^verbatim>\<open>results\<close> is null, a
  boolean or a number; and the exception of the first element of the results that
  raises, whatever precedes and follows it. An element that is not a dict raises
  \<^verbatim>\<open>AttributeError\<close>. An element that is a dict raises in two cases only:
  \<^verbatim>\<open>TypeError\<close> when its \<^verbatim>\<open>exit_codes\<close> is true or a non-zero number, and \<^verbatim>\<open>KeyError\<close>
  when it has no \<^verbatim>\<open>command\<close>, a \<^verbatim>\<open>mean\<close> that is not null and no non-zero exit code
  (an element without \<^verbatim>\<open>command\<close> that is skipped does not raise). When no element
  raises, the loader returns the empty table with a warning if no record was kept, and
  otherwise what the table constructor returns or raises on the records.
\<close>

theorem loader_decode_failure:
  "(docs json_path = Inl JSONDecodeError \<longrightarrow>
      parse_benchmark_data docs fs infer json_path = Inr ([Skipping_invalid_json json_path], []))
 \<and> (\<forall>e. docs json_path = Inl e \<and> e \<noteq> JSONDecodeError \<longrightarrow>
      parse_benchmark_data docs fs infer json_path = Inl e)
 \<and> (\<forall>data. docs json_path = Inr data \<and> (\<forall>kv. data \<noteq> JObj kv) \<longrightarrow>
      parse_benchmark_data docs fs infer json_path = Inl TypeError)
 \<and> (\<forall>kv. docs json_path = Inr (JObj kv) \<and> map_of kv ''results'' = None \<longrightarrow>
      parse_benchmark_data docs fs infer json_path = Inl KeyError)
 \<and> (\<forall>kv results. docs json_path = Inr (JObj kv) \<and> map_of kv ''results'' = Some results
        \<and> (\<forall>xs. results \<noteq> JArr xs) \<and> (\<forall>m. results \<noteq> JObj m) \<and> (\<forall>s. results \<noteq> JStr s) \<longrightarrow>
      parse_benchmark_data docs fs infer json_path = Inl TypeError)
 \<and> (\<forall>kv results pre r post e. docs json_path = Inr (JObj kv)
        \<and> map_of kv ''results'' = Some results \<and> iterate results = Inr (pre @ r # post)
        \<and> (\<forall>x \<in> set pre. \<forall>e'. process_result x \<noteq> Inl e') \<and> process_result r = Inl e \<longrightarrow>
      parse_benchmark_data docs fs infer json_path = Inl e)
 \<and> (\<forall>r. (\<forall>kv. r \<noteq> JObj kv) \<longrightarrow> process_result r = Inl AttributeError)
 \<and> (\<forall>kv e. process_result (JObj kv) = Inl e \<longleftrightarrow>
        (truthy (get_or kv ''exit_codes'' (JArr []))
           \<and> e = TypeError
           \<and> (\<forall>xs. get_or kv ''exit_codes'' (JArr []) \<noteq> JArr xs)
           \<and> (\<forall>m. get_or kv ''exit_codes'' (JArr []) \<noteq> JObj m)
           \<and> (\<forall>s. get_or kv ''exit_codes'' (JArr []) \<noteq> JStr s))
      \<or> (e = KeyError \<and> map_of kv ''command'' = None
           \<and> (\<exists>m. map_of kv ''mean'' = Some m \<and> m \<noteq> JNull)
           \<and> (\<exists>codes. (if truthy (get_or kv ''exit_codes'' (JArr []))
                         then iterate (get_or kv ''exit_codes'' (JArr [])) else Inr []) = Inr codes
                        \<and> \<not> list_ex ne_zero codes)))
 \<and> (\<forall>kv results entries. docs json_path = Inr (JObj kv)
        \<and> map_of kv ''results'' = Some results \<and> iterate results = Inr entries
        \<and> (\<forall>x \<in> set entries. \<forall>e. process_result x \<noteq> Inl e) \<longrightarrow>
      (\<exists>ws recs. collect entries = Inr (ws, recs)
         \<and> parse_benchmark_data docs fs infer json_path =
             (if recs = [] then Inr (ws @ [No_successful_results json_path], [])
              else case pl_DataFrame infer recs of
                     Inl e \<Rightarrow> Inl e
                   | Inr table \<Rightarrow> Inr (ws, table))))"
proof -
  let ?P = "parse_benchmark_data docs fs infer json_path"
  have c1: "docs json_path = Inl JSONDecodeError \<longrightarrow> ?P = Inr ([Skipping_invalid_json json_path], [])"
    by (simp add: parse_benchmark_data_def load_hyperfine_results_def)
  have c2: "\<forall>e. docs json_path = Inl e \<and> e \<noteq> JSONDecodeError \<longrightarrow> ?P = Inl e"
    by (simp add: parse_benchmark_data_def load_hyperfine_results_def)
  have c3: "\<forall>data. docs json_path = Inr data \<and> (\<forall>kv. data \<noteq> JObj kv) \<longrightarrow> ?P = Inl TypeError"
  proof (intro allI impI)
    fix data assume a: "docs json_path = Inr data \<and> (\<forall>kv. data \<noteq> JObj kv)"
    then have "getitem data ''results'' = Inl TypeError"
      by (simp add: getitem_raises)
    with a show "?P = Inl TypeError"
      by (simp add: parse_benchmark_data_def load_hyperfine_results_def)
  qed
  have c4: "\<forall>kv. docs json_path = Inr (JObj kv) \<and> map_of kv ''results'' = None \<longrightarrow> ?P = Inl KeyError"
    by (simp add: parse_benchmark_data_def load_hyperfine_results_def getitem_def)
  have c5: "\<forall>kv results. docs json_path = Inr (JObj kv) \<and> map_of kv ''results'' = Some results
        \<and> (\<forall>xs. results \<noteq> JArr xs) \<and> (\<forall>m. results \<noteq> JObj m) \<and> (\<forall>s. results \<noteq> JStr s) \<longrightarrow>
      ?P = Inl TypeError"
  proof (intro allI impI)
    fix kv results
    assume a: "docs json_path = Inr (JObj kv) \<and> map_of kv ''results'' = Some results
        \<and> (\<forall>xs. results \<noteq> JArr xs) \<and> (\<forall>m. results \<noteq> JObj m) \<and> (\<forall>s. results \<noteq> JStr s)"
    then have "iterate results = Inl TypeError"
      by (simp add: iterate_raises)
    with a show "?P = Inl TypeError"
      by (simp add: parse_benchmark_data_def load_hyperfine_results_def getitem_def)
  qed
  have c6: "\<forall>kv results pre r post e. docs json_path = Inr (JObj kv)
        \<and> map_of kv ''results'' = Some results \<and> iterate results = Inr (pre @ r # post)
        \<and> (\<forall>x \<in> set pre. \<forall>e'. process_result x \<noteq> Inl e') \<and> process_result r = Inl e \<longrightarrow>
      ?P = Inl e"
  proof (intro allI impI)
    fix kv results pre r post e
    assume a: "docs json_path = Inr (JObj kv)
        \<and> map_of kv ''results'' = Some results \<and> iterate results = Inr (pre @ r # post)
        \<and> (\<forall>x \<in> set pre. \<forall>e'. process_result x \<noteq> Inl e') \<and> process_result r = Inl e"
    then have "collect (pre @ r # post) = Inl e"
      using collect_raises[of pre r e post] by blast
    with a show "?P = Inl e"
      by (simp add: parse_benchmark_data_def load_hyperfine_results_def getitem_def)
  qed
  have c7: "\<forall>r. (\<forall>kv. r \<noteq> JObj kv) \<longrightarrow> process_result r = Inl AttributeError"
    using process_result_not_dict by blast
  have c8: "\<forall>kv e. process_result (JObj kv) = Inl e \<longleftrightarrow>
        (truthy (get_or kv ''exit_codes'' (JArr []))
           \<and> e = TypeError
           \<and> (\<forall>xs. get_or kv ''exit_codes'' (JArr []) \<noteq> JArr xs)
           \<and> (\<forall>m. get_or kv ''exit_codes'' (JArr []) \<noteq> JObj m)
           \<and> (\<forall>s. get_or kv ''exit_codes'' (JArr []) \<noteq> JStr s))
      \<or> (e = KeyError \<and> map_of kv ''command'' = None
           \<and> (\<exists>m. map_of kv ''mean'' = Some m \<and> m \<noteq> JNull)
           \<and> (\<exists>codes. (if truthy (get_or kv ''exit_codes'' (JArr []))
                         then iterate (get_or kv ''exit_codes'' (JArr [])) else Inr []) = Inr codes
                        \<and> \<not> list_ex ne_zero codes))"
    unfolding process_result_raises iterate_raises by blast
  have c9: "\<forall>kv results entries. docs json_path = Inr (JObj kv)
        \<and> map_of kv ''results'' = Some results \<and> iterate results = Inr entries
        \<and> (\<forall>x \<in> set entries. \<forall>e. process_result x \<noteq> Inl e) \<longrightarrow>
      (\<exists>ws recs. collect entries = Inr (ws, recs)
         \<and> ?P = (if recs = [] then Inr (ws @ [No_successful_results json_path], [])
              else case pl_DataFrame infer recs of
                     Inl e \<Rightarrow> Inl e
                   | Inr table \<Rightarrow> Inr (ws, table)))"
  proof (intro allI impI)
    fix kv results entries
    assume a: "docs json_path = Inr (JObj kv)
        \<and> map_of kv ''results'' = Some results \<and> iterate results = Inr entries
        \<and> (\<forall>x \<in> set entries. \<forall>e. process_result x \<noteq> Inl e)"
    then obtain ws recs where c: "collect entries = Inr (ws, recs)"
      using collect_returns[of entries] by blast
    from a c have "?P = (if recs = [] then Inr (ws @ [No_successful_results json_path], [])
              else case pl_DataFrame infer recs of
                     Inl e \<Rightarrow> Inl e
                   | Inr table \<Rightarrow> Inr (ws, table))"
      by (simp add: parse_benchmark_data_def load_hyperfine_results_def getitem_def)
    with c show "\<exists>ws recs. collect entries = Inr (ws, recs)
         \<and> ?P = (if recs = [] then Inr (ws @ [No_successful_results json_path], [])
              else case pl_DataFrame infer recs of
                     Inl e \<Rightarrow> Inl e
                   | Inr table \<Rightarrow> Inr (ws, table))"
      by blast
  qed
  from c1 c2 c3 c4 c5 c6 c7 c8 c9 show ?thesis
    by (intro conjI)
qed

theorem loader_decode_failure_witness:
  "parse_benchmark_data (\<lambda>p. Inl JSONDecodeError) sample_fs (\<lambda>records. Inl TypeError)
     ''b1/1m/hot_raw.json'' = Inr ([Skipping_invalid_json ''b1/1m/hot_raw.json''], [])
 \<and> parse_benchmark_data (\<lambda>p. Inl UnicodeDecodeError) sample_fs (\<lambda>records. Inl TypeError)
     ''b1/1m/hot_raw.json'' = Inl UnicodeDecodeError
 \<and> parse_benchmark_data (\<lambda>p. Inr (JObj [(''other'', JNull)])) sample_fs (\<lambda>records. Inl TypeError)
     ''b1/1m/hot_raw.json'' = Inl KeyError"
  using loader_decode_failure[of "\<lambda>p. Inl JSONDecodeError" "''b1/1m/hot_raw.json''" sample_fs
          "\<lambda>records. Inl TypeError"]
        loader_decode_failure[of "\<lambda>p. Inl UnicodeDecodeError" "''b1/1m/hot_raw.json''" sample_fs
          "\<lambda>records. Inl TypeError"]
        loader_decode_failure[of "\<lambda>p. Inr (JObj [(''other'', JNull)])" "''b1/1m/hot_raw.json''"
          sample_fs "\<lambda>records. Inl TypeError"]
  by simp

text \<open>Where C1 fails as stated: a decoded document without \<^verbatim>\<open>results\<close>, a top-level
  list, a kept entry without \<^verbatim>\<open>command\<close> and an entry that is a number each make the
  loader raise.\<close>

theorem loader_decode_failure_counterexample:
  "parse_benchmark_data (\<lambda>p. Inr (JObj [])) sample_fs (\<lambda>records. Inl TypeError)
     ''b1/1m/hot_raw.json'' = Inl KeyError
 \<and> parse_benchmark_data (\<lambda>p. Inr (JArr [])) sample_fs (\<lambda>records. Inl TypeError)
     ''b1/1m/hot_raw.json'' = Inl TypeError
 \<and> parse_benchmark_data (\<lambda>p. Inr (JObj [(''results'', JArr [JObj [(''mean'', JFloat 1)]])]))
     sample_fs (\<lambda>records. Inl TypeError) ''b1/1m/hot_raw.json'' = Inl KeyError
 \<and> parse_benchmark_data (\<lambda>p. Inr (JObj [(''results'', JArr [JInt 1])]))
     sample_fs (\<lambda>records. Inl TypeError) ''b1/1m/hot_raw.json'' = Inl AttributeError"
  by (simp add: parse_benchmark_data_def load_hyperfine_results_def getitem_def iterate_def
        process_result_def get_or_def truthy_def Let_def)

subsection \<open>Throughput\<close>

lemma sample_path_1m:
  "\<not> contains ''really_cold_10mb'' ''benchmark_results/b1/1m/hot_raw.json''"
  "\<not> contains ''really_cold_100mb'' ''benchmark_results/b1/1m/hot_raw.json''"
  "\<not> contains ''really_cold_1gb'' ''benchmark_results/b1/1m/hot_raw.json''"
  "\<not> contains ''really_cold_4gb'' ''benchmark_results/b1/1m/hot_raw.json''"
  "test_size_of ''benchmark_results/b1/1m/hot_raw.json'' = Some ''1m''"
  "compression_of_path ''benchmark_results/b1/1m/hot_raw.json'' = Some (''.fastq'', ''raw'')"
  by code_simp+

lemma sample_size_1m: "get_file_size_bytes sample_fs ''benchmark_results/b1/1m/hot_raw.json'' = Some 1073741824"
  by (simp add: get_file_size_bytes_def get_file_size_bytes_try_def really_cold_bytes_def sample_path_1m
        data_file_size_def path_exists_def stat_st_size_def sample_fs_def)

lemma sample_key_tests:
  "contains ''_hot_'' ''1m_hot_raw''"
  "endswith ''1m_hot_raw'' ''_raw''"
  "\<not> contains ''really_cold'' ''1m_hot_raw''"
  "contains ''_hot_'' ''10m_hot_raw''"
  "endswith ''10m_hot_raw'' ''_raw''"
  "\<not> contains ''really_cold'' ''10m_hot_raw''"
  "\<not> contains ''_hot_'' ''1m_cold_raw''"
  "hd (split ''_'' ''1m_hot_raw'') = ''1m''"
  "hd (split ''_'' ''10m_hot_raw'') = ''10m''"
  "upper ''1m'' = ''1M''"
  "upper ''10m'' = ''10M''"
  by code_simp+

lemma sample_size_info_1m: "extract_size_info float_decimal ''1m_hot_raw'' = (Some 1, ''1m'', ''1M'')"
  unfolding extract_size_info_def Let_def sample_key_tests
  by (simp add: strip_unit_def replace_char_empty_def float_decimal_def is_digit_def
        digits_value_def digit_value_def)

lemma sample_size_info_10m: "extract_size_info float_decimal ''10m_hot_raw'' = (Some 10, ''10m'', ''10M'')"
  unfolding extract_size_info_def Let_def sample_key_tests
  by (simp add: strip_unit_def replace_char_empty_def float_decimal_def is_digit_def
        digits_value_def digit_value_def)

lemma sample_frames:
  "map fst sample_data = [''1m_hot_raw'', ''10m_hot_raw'', ''1m_cold_raw'']"
  "frame_of sample_data ''1m_hot_raw'' =
         [\<lparr> command = ''needletail'', mean = 2, stddev = Some (1/2), min_time = 3/2, max_time = 5/2 \<rparr>,
          \<lparr> command = ''noop'', mean = 0, stddev = None, min_time = 0, max_time = 0 \<rparr>]"
  "frame_of sample_data ''10m_hot_raw'' =
         [\<lparr> command = ''needletail'', mean = 20, stddev = Some 1, min_time = 19, max_time = 21 \<rparr>]"
  by (simp_all add: sample_data_def frame_of_def)

lemma sample_matching_keys: "matching_keys sample_data ''hot'' ''raw'' = [''1m_hot_raw'', ''10m_hot_raw'']"
  unfolding matching_keys_def sample_frames(1)
  by (simp add: sample_key_tests sample_frames(2,3))



lemma sample_results_lookup:
  "map_of sample_results ''1m_hot_raw'' = Some ''benchmark_results/b1/1m/hot_raw.json''"
  "map_of sample_results ''10m_hot_raw'' = Some ''benchmark_results/b1/10m/hot_raw.json''"
  by (simp_all add: sample_results_def)

lemma underflow_pos: "0 < underflow_threshold"
  by (simp add: underflow_threshold_def)

lemma overflow_large: "(2::real) ^ 1023 < overflow_threshold"
proof -
  have "(2::real) ^ 970 < 2 ^ 1023" by (rule power_strict_increasing) simp_all
  moreover have "(2::real) ^ 1024 = 2 ^ 1023 + 2 ^ 1023"
  proof -
    have "(2::real) ^ 1024 = 2 ^ Suc 1023" by simp
    also have "\<dots> = 2 ^ 1023 + 2 ^ 1023" by (simp only: power_Suc) 
    finally show ?thesis .
  qed
  ultimately show ?thesis by (simp add: overflow_threshold_def)
qed

lemma overflow_gt_one: "1 < overflow_threshold"
proof -
  have "(1::real) \<le> 2 ^ 1023" by (rule one_le_power) simp
  with overflow_large show ?thesis by simp
qed

lemma underflow_lt_one: "underflow_threshold < 1"
proof -
  have "(1::real) < 2 ^ 1075" by (rule one_less_power) simp_all
  then show ?thesis by (simp add: underflow_threshold_def)
qed

lemma underflow_lt_overflow: "underflow_threshold < overflow_threshold"
  using underflow_lt_one overflow_gt_one by simp

lemma fl_in_range: "in_range x \<Longrightarrow> fl x = Fin x"
  using underflow_pos underflow_lt_overflow
  by (auto simp: in_range_def fl_def)






lemma in_range_moderate:
  assumes "1 / 2 ^ 64 \<le> \<bar>x\<bar>" and "\<bar>x\<bar> \<le> 2 ^ 64"
  shows "in_range x"
proof -
  have "(2::real) ^ 64 < 2 ^ 1075" by (rule power_strict_increasing) simp_all
  then have "underflow_threshold < 1 / 2 ^ 64"
    unfolding underflow_threshold_def by (intro divide_strict_left_mono) simp_all
  with assms(1) have a: "underflow_threshold < \<bar>x\<bar>" by simp
  have "(2::real) ^ 64 < 2 ^ 1023" by (rule power_strict_increasing) simp_all
  with overflow_large assms(2) have "\<bar>x\<bar> < overflow_threshold" by simp
  with a show ?thesis by (simp add: in_range_def)
qed

lemma int_truediv_pos:
  assumes "S \<noteq> 0" and "0 < b" and "real b \<le> 2 ^ 64" and "real S / real b < overflow_threshold"
  shows "int_truediv S b = Inr (Fin (real S / real b))"
proof -
  have "(2::real) ^ 64 < 2 ^ 1075" by (rule power_strict_increasing) simp_all
  with assms(3) have "real b < 2 ^ 1075" by simp
  moreover have "1 \<le> real S" using assms(1) by simp
  ultimately have "1 / 2 ^ 1075 < real S / real b"
    using assms(2) by (simp add: field_simps)
  then have "underflow_threshold < \<bar>real S / real b\<bar>"
    by (simp add: underflow_threshold_def)
  with assms(4) have "in_range (real S / real b)" by (simp add: in_range_def)
  from fl_in_range[OF this] assms show ?thesis by (simp add: int_truediv_def)
qed

lemma float_div_Fin: "y \<noteq> 0 \<Longrightarrow> float_div (Fin x) (Fin y) = Inr (fl (x / y))"
  by (simp add: float_div_def)

lemma float_div_zero: "float_div a (Fin 0) = Inl ZeroDivisionError"
  by (simp add: float_div_def)

lemma float_div_returns: "y \<noteq> 0 \<Longrightarrow> \<exists>z. float_div a (Fin y) = Inr z"
  by (simp add: float_div_def)


lemma float_mul_Fin: "float_mul (Fin x) (Fin y) = fl (x * y)"
  by (simp add: float_mul_def)

lemma float_pow2_Fin:
  "float_pow2 (Fin x) =
     (if overflow_threshold \<le> x * x then Inl OverflowError else Inr (fl (x * x)))"
  by (simp add: float_pow2_def)


lemma fl_small: "0 \<le> x \<Longrightarrow> x \<le> underflow_threshold \<Longrightarrow> fl x = Fin 0"
  using underflow_lt_overflow overflow_gt_one by (simp add: fl_def)


lemma throughput_of_row_nonpos: "mean r \<le> 0 \<Longrightarrow> throughput_of_row S g v d r = Inr []"
  by (simp add: throughput_of_row_def Let_def)

lemma throughput_of_row_underflow:
  assumes "0 < mean r" and "(mean r)\<^sup>2 \<le> underflow_threshold"
  shows "throughput_of_row S g v d r = Inl ZeroDivisionError"
proof -
  from assms(1) obtain z where z: "float_div g (Fin (mean r)) = Inr z"
    using float_div_returns[of "mean r" g] by auto
  from assms(2) underflow_lt_overflow have a: "\<not> overflow_threshold \<le> mean r * mean r"
    by (simp add: power2_eq_square)
  from assms(2) have "fl (mean r * mean r) = Fin 0"
    by (intro fl_small) (simp_all add: power2_eq_square)
  with a have "float_pow2 (Fin (mean r)) = Inr (Fin 0)" by (simp add: float_pow2_Fin)
  with assms(1) z show ?thesis
    by (simp add: throughput_of_row_def Let_def float_div_zero)
qed


lemma throughput_of_row_in_range:
  assumes m: "0 < mean r"
    and a: "in_range (g / mean r)"
    and b: "in_range (g * stddev_or_zero r)"
    and c: "in_range ((mean r)\<^sup>2)"
    and e: "in_range (g * stddev_or_zero r / (mean r)\<^sup>2)"
    and mb: "int_truediv S (1024 ^ 2) = Inr mb"
  shows "throughput_of_row S (Fin g) v d r =
           Inr [\<lparr> tr_size_value = v, tr_size_display = d, tr_command = command r,
                   throughput_gbs = Fin (g / mean r),
                   throughput_stddev = Fin (g * stddev_or_zero r / (mean r)\<^sup>2),
                   file_size_mb = mb, mean_time = mean r \<rparr>]"
proof -
  from m have nz: "mean r \<noteq> 0" "mean r * mean r \<noteq> 0" by simp_all
  from c nz have "\<not> overflow_threshold \<le> mean r * mean r"
    by (simp add: in_range_def power2_eq_square)
  moreover from c have "fl (mean r * mean r) = Fin (mean r * mean r)"
    using fl_in_range[of "(mean r)\<^sup>2"] by (simp add: power2_eq_square)
  ultimately have p: "float_pow2 (Fin (mean r)) = Inr (Fin (mean r * mean r))"
    by (simp add: float_pow2_Fin)
  have q: "float_div (Fin g) (Fin (mean r)) = Inr (Fin (g / mean r))"
    using nz by (simp add: float_div_Fin fl_in_range[OF a])
  have s: "float_mul (Fin g) (Fin (stddev_or_zero r)) = Fin (g * stddev_or_zero r)"
    by (simp add: float_mul_Fin fl_in_range[OF b])
  have t: "float_div (Fin (g * stddev_or_zero r)) (Fin (mean r * mean r))
             = Inr (Fin (g * stddev_or_zero r / (mean r)\<^sup>2))"
    using nz fl_in_range[OF e] by (simp add: float_div_Fin power2_eq_square)
  from mb have mb': "int_truediv S 1048576 = Inr mb" by simp
  show ?thesis
    unfolding throughput_of_row_def Let_def
    by (simp add: m p q s t mb')
qed




lemma concat_results_returns:
  "(\<forall>x \<in> set xs. f x = Inr (g x)) \<Longrightarrow> concat_results (map f xs) = Inr (concat (map g xs))"
  by (induction xs) simp_all


lemma int_truediv_mb:
  assumes "S \<noteq> 0" and "real S / 1024 ^ 2 < overflow_threshold"
  shows "int_truediv S (1024 ^ 2) = Inr (Fin (real S / 1024 ^ 2))"
    and "int_truediv S (1024 ^ 3) = Inr (Fin (real S / 1024 ^ 3))"
proof -
  have "int_truediv S (1024 ^ 2) = Inr (Fin (real S / real (1024 ^ 2)))"
    using assms by (intro int_truediv_pos) simp_all
  then show "int_truediv S (1024 ^ 2) = Inr (Fin (real S / 1024 ^ 2))" by simp
  have "real S / 1024 ^ 3 \<le> real S / 1024 ^ 2" by (simp add: field_simps)
  with assms(2) have "real S / 1024 ^ 3 < overflow_threshold" by simp
  then have "int_truediv S (1024 ^ 3) = Inr (Fin (real S / real (1024 ^ 3)))"
    using assms(1) by (intro int_truediv_pos) simp_all
  then show "int_truediv S (1024 ^ 3) = Inr (Fin (real S / 1024 ^ 3))" by simp
qed

lemma throughput_of_key_known:
  assumes "map_of available_results key = Some json_path"
    and "get_file_size_bytes fs json_path = Some S"
    and "S \<noteq> 0"
    and "extract_size_info float_of key = (Some v, sk, d)"
  shows "throughput_of_key float_of fs all_data available_results key =
           (case int_truediv S (1024 ^ 3) of
              Inl e \<Rightarrow> Inl e
            | Inr g \<Rightarrow> concat_results (map (throughput_of_row S g v d) (frame_of all_data key)))"
  using assms by (simp add: throughput_of_key_def Let_def)



lemma rows_projection:
  "map f (concat (map (\<lambda>r. if 0 < mean r then [h r] else []) df))
   = map (\<lambda>r. f (h r)) (filter (\<lambda>r. 0 < mean r) df)"
  by (induction df) simp_all

lemma moderate_below_overflow: "x \<le> 2 ^ 64 \<Longrightarrow> x < overflow_threshold"
proof -
  assume "x \<le> 2 ^ 64"
  moreover have "(2::real) ^ 64 < 2 ^ 1023" by (rule power_strict_increasing) simp_all
  ultimately show ?thesis using overflow_large by simp
qed

lemma sample_gib:
  "int_truediv 1073741824 (1024 ^ 3) = Inr (Fin 1)"
  "int_truediv 1073741824 (1024 ^ 2) = Inr (Fin 1024)"
proof -
  have nz: "(1073741824::nat) \<noteq> 0" by simp
  have lt: "real 1073741824 / 1024 ^ 2 < overflow_threshold"
    by (rule moderate_below_overflow) simp
  from int_truediv_mb[OF nz lt] show "int_truediv 1073741824 (1024 ^ 3) = Inr (Fin 1)"
    "int_truediv 1073741824 (1024 ^ 2) = Inr (Fin 1024)" by simp_all
qed

lemma sample_row_1m:
  "throughput_of_row 1073741824 (Fin 1) 1 ''1M''
     \<lparr> command = ''needletail'', mean = 2, stddev = Some (1/2), min_time = 3/2, max_time = 5/2 \<rparr>
   = Inr [\<lparr> tr_size_value = 1, tr_size_display = ''1M'', tr_command = ''needletail'',
            throughput_gbs = Fin (1/2), throughput_stddev = Fin (1/8),
            file_size_mb = Fin 1024, mean_time = 2 \<rparr>]"
proof -
  let ?r = "\<lparr> command = ''needletail'', mean = 2, stddev = Some (1/2), min_time = 3/2, max_time = 5/2 \<rparr>"
  have m: "0 < mean ?r" by simp
  have a: "in_range (1 / mean ?r)" by (rule in_range_moderate) simp_all
  have b: "in_range (1 * stddev_or_zero ?r)"
    by (rule in_range_moderate) (simp_all add: stddev_or_zero_def)
  have c: "in_range ((mean ?r)\<^sup>2)" by (rule in_range_moderate) simp_all
  have e: "in_range (1 * stddev_or_zero ?r / (mean ?r)\<^sup>2)"
    by (rule in_range_moderate) (simp_all add: stddev_or_zero_def)
  from throughput_of_row_in_range[OF m a b c e sample_gib(2), of 1 "''1M''"]
  show ?thesis by (simp add: stddev_or_zero_def)
qed

lemma sample_key_1m:
  "throughput_of_key float_decimal sample_fs sample_data sample_results ''1m_hot_raw''
   = Inr [\<lparr> tr_size_value = 1, tr_size_display = ''1M'', tr_command = ''needletail'',
            throughput_gbs = Fin (1/2), throughput_stddev = Fin (1/8),
            file_size_mb = Fin 1024, mean_time = 2 \<rparr>]"
proof -
  have nz: "(1073741824::nat) \<noteq> 0" by simp
  note k = throughput_of_key_known[OF sample_results_lookup(1) sample_size_1m nz sample_size_info_1m,
      of sample_data]
  show ?thesis
    unfolding k sample_gib sample_frames
    by (simp add: sample_row_1m throughput_of_row_nonpos)
qed

lemma sample_label_big:
  "hd (split ''_'' ''big_hot_raw'') = ''big''"
  "strip_unit ''big'' = ''big''"
  by code_simp+

lemma sample_size_info_big: "extract_size_info float_decimal ''big_hot_raw'' = (None, ''big'', ''big'')"
  unfolding extract_size_info_def Let_def sample_label_big
  by (simp add: float_decimal_def is_digit_def)

lemma tiny_square: "((1::real) / 2 ^ 600)\<^sup>2 \<le> underflow_threshold"
proof -
  have "((1::real) / 2 ^ 600)\<^sup>2 = 1 / 2 ^ 1200"
    by (simp only: power_divide power_one power_mult[symmetric]) simp
  moreover have "(2::real) ^ 1075 \<le> 2 ^ 1200" by (rule power_increasing) simp_all
  ultimately show ?thesis
    unfolding underflow_threshold_def by (simp only: frac_le zero_less_power zero_less_numeral zero_le_one order_refl)
qed






text \<open>
  Claim C3, as the source has it. For a key whose result file resolves to \<open>S > 0\<close>
  bytes and whose size label parses as a number, when every intermediate value of the
  derivation is within the range of a float (\<^const>\<open>in_range\<close>: the quotient
  \<open>(S / 1024^3) / m\<close>, the product \<open>(S / 1024^3) * stddev\<close>, the square \<open>m^2\<close>, and
  the quotient of the two, for each row with mean \<open>m > 0\<close>, and \<open>S / 1024^2\<close>), the
  derivation returns, the derived rows are those of the rows with mean \<open>m > 0\<close>, in
  order, and each has \<^verbatim>\<open>throughput_gbs = (S / 1024^3) / m\<close>, in GiB per second, and
  \<^verbatim>\<open>throughput_stddev = (S / 1024^3) * stddev / m^2\<close>, where a null \<^verbatim>\<open>stddev\<close> counts
  as 0. The values are exact: the rounding of binary64 is not modelled.
\<close>

theorem throughput_formula:
  assumes "map_of available_results key = Some json_path"
    and "get_file_size_bytes fs json_path = Some S"
    and "S \<noteq> 0"
    and "extract_size_info float_of key = (Some v, sk, d)"
    and "real S / 1024 ^ 2 < overflow_threshold"
    and "\<forall>r \<in> set (frame_of all_data key). 0 < mean r \<longrightarrow>
           in_range (real S / 1024 ^ 3 / mean r)
         \<and> in_range (real S / 1024 ^ 3 * stddev_or_zero r)
         \<and> in_range ((mean r)\<^sup>2)
         \<and> in_range (real S / 1024 ^ 3 * stddev_or_zero r / (mean r)\<^sup>2)"
  shows "\<exists>rows. throughput_of_key float_of fs all_data available_results key = Inr rows
           \<and> map (\<lambda>t. (tr_command t, throughput_gbs t, throughput_stddev t)) rows
             = map (\<lambda>r. (command r,
                           Fin (real S / 1024 ^ 3 / mean r),
                           Fin (real S / 1024 ^ 3 * stddev_or_zero r / (mean r)\<^sup>2)))
                   (filter (\<lambda>r. 0 < mean r) (frame_of all_data key))"
proof -
  let ?g = "real S / 1024 ^ 3"
  let ?h = "\<lambda>r. \<lparr> tr_size_value = v, tr_size_display = d, tr_command = command r,
                   throughput_gbs = Fin (?g / mean r),
                   throughput_stddev = Fin (?g * stddev_or_zero r / (mean r)\<^sup>2),
                   file_size_mb = Fin (real S / 1024 ^ 2), mean_time = mean r \<rparr>"
  note tr = int_truediv_mb[OF assms(3,5)]
  have row: "throughput_of_row S (Fin ?g) v d r = Inr (if 0 < mean r then [?h r] else [])"
    if "r \<in> set (frame_of all_data key)" for r
  proof (cases "0 < mean r")
    case True
    with assms(6) that have "in_range (?g / mean r)" "in_range (?g * stddev_or_zero r)"
      "in_range ((mean r)\<^sup>2)" "in_range (?g * stddev_or_zero r / (mean r)\<^sup>2)"
      by blast+
    from throughput_of_row_in_range[OF True this tr(1)] True show ?thesis by simp
  next
    case False
    then show ?thesis by (simp add: throughput_of_row_nonpos)
  qed
  have "throughput_of_key float_of fs all_data available_results key
          = concat_results (map (throughput_of_row S (Fin ?g) v d) (frame_of all_data key))"
    unfolding throughput_of_key_known[OF assms(1-4)] tr(2) by simp
  also have "\<dots> = Inr (concat (map (\<lambda>r. if 0 < mean r then [?h r] else [])
                                    (frame_of all_data key)))"
    by (rule concat_results_returns, rule ballI, rule row)
  finally have k: "throughput_of_key float_of fs all_data available_results key
          = Inr (concat (map (\<lambda>r. if 0 < mean r then [?h r] else []) (frame_of all_data key)))" .
  have proj: "map (\<lambda>t. (tr_command t, throughput_gbs t, throughput_stddev t))
                  (concat (map (\<lambda>r. if 0 < mean r then [?h r] else []) (frame_of all_data key)))
             = map (\<lambda>r. (command r,
                           Fin (?g / mean r),
                           Fin (?g * stddev_or_zero r / (mean r)\<^sup>2)))
                   (filter (\<lambda>r. 0 < mean r) (frame_of all_data key))"
    by (subst rows_projection) simp
  from k proj show ?thesis by blast
qed

theorem throughput_formula_witness:
  "\<exists>rows. throughput_of_key float_decimal sample_fs sample_data sample_results ''1m_hot_raw''
            = Inr rows
         \<and> map (\<lambda>t. (tr_command t, throughput_gbs t, throughput_stddev t)) rows
           = [(''needletail'', Fin (1/2), Fin (1/8))]"
proof -
  have nz: "(1073741824::nat) \<noteq> 0" by simp
  have lt: "real 1073741824 / 1024 ^ 2 < overflow_threshold"
    by (rule moderate_below_overflow) simp
  have rng: "\<forall>r \<in> set (frame_of sample_data ''1m_hot_raw''). 0 < mean r \<longrightarrow>
           in_range (real 1073741824 / 1024 ^ 3 / mean r)
         \<and> in_range (real 1073741824 / 1024 ^ 3 * stddev_or_zero r)
         \<and> in_range ((mean r)\<^sup>2)
         \<and> in_range (real 1073741824 / 1024 ^ 3 * stddev_or_zero r / (mean r)\<^sup>2)"
    unfolding sample_frames
    by (simp add: stddev_or_zero_def) (intro conjI in_range_moderate; simp)
  from throughput_formula[OF sample_results_lookup(1) sample_size_1m nz sample_size_info_1m lt rng]
  show ?thesis unfolding sample_frames by (simp add: stddev_or_zero_def)
qed

text \<open>Where C3 fails as stated. For a file of \<open>S = 1073741824\<close> bytes, a mean of 2
  seconds and a standard deviation of \<open>1/2\<close> the derived throughput is \<open>1/2\<close>, not
  \<open>S / m = 536870912\<close>, and its uncertainty is \<open>1/8\<close>, not \<open>S * stddev / m^2\<close>. The same
  row under a key whose size label is not a number derives nothing, although the file
  size is resolved. With a mean of \<open>2^-600\<close> the square of the mean underflows to zero
  and the derivation raises \<^verbatim>\<open>ZeroDivisionError\<close>.\<close>

theorem throughput_formula_counterexample:
  "throughput_of_key float_decimal sample_fs sample_data sample_results ''1m_hot_raw''
   = Inr [\<lparr> tr_size_value = 1, tr_size_display = ''1M'', tr_command = ''needletail'',
            throughput_gbs = Fin (1/2), throughput_stddev = Fin (1/8),
            file_size_mb = Fin 1024, mean_time = 2 \<rparr>]
 \<and> get_file_size_bytes sample_fs ''benchmark_results/b1/1m/hot_raw.json'' = Some 1073741824
 \<and> map (\<lambda>r. (mean r, stddev r)) (filter (\<lambda>r. 0 < mean r) (frame_of sample_data ''1m_hot_raw''))
     = [(2, Some (1/2))]
 \<and> Fin (1/2) \<noteq> Fin (real 1073741824 / 2)
 \<and> Fin (1/8) \<noteq> Fin (real 1073741824 * (1/2) / 2\<^sup>2)
 \<and> throughput_of_key float_decimal sample_fs
      [(''big_hot_raw'',
        [\<lparr> command = ''needletail'', mean = 2, stddev = Some (1/2), min_time = 3/2, max_time = 5/2 \<rparr>])]
      [(''big_hot_raw'', ''benchmark_results/b1/1m/hot_raw.json'')] ''big_hot_raw'' = Inr []
 \<and> throughput_of_key float_decimal sample_fs
      [(''1m_hot_raw'',
        [\<lparr> command = ''needletail'', mean = 1 / 2 ^ 600, stddev = Some 0,
           min_time = 1 / 2 ^ 600, max_time = 1 / 2 ^ 600 \<rparr>])]
      sample_results ''1m_hot_raw'' = Inl ZeroDivisionError"
proof -
  have nz: "(1073741824::nat) \<noteq> 0" by simp
  have b: "map (\<lambda>r. (mean r, stddev r)) (filter (\<lambda>r. 0 < mean r) (frame_of sample_data ''1m_hot_raw''))
     = [(2, Some (1/2))]"
    unfolding sample_frames by simp
  have c: "Fin (1/2) \<noteq> Fin (real 1073741824 / 2)" by simp
  have d: "Fin (1/8) \<noteq> Fin (real 1073741824 * (1/2) / 2\<^sup>2)" by simp
  have e: "throughput_of_key float_decimal sample_fs
      [(''big_hot_raw'',
        [\<lparr> command = ''needletail'', mean = 2, stddev = Some (1/2), min_time = 3/2, max_time = 5/2 \<rparr>])]
      [(''big_hot_raw'', ''benchmark_results/b1/1m/hot_raw.json'')] ''big_hot_raw'' = Inr []"
    unfolding throughput_of_key_def Let_def
    by (simp add: sample_size_1m sample_size_info_big)
  let ?r = "\<lparr> command = ''needletail'', mean = 1 / 2 ^ 600, stddev = Some 0,
           min_time = 1 / 2 ^ 600, max_time = 1 / 2 ^ 600 \<rparr>"
  have m: "0 < mean ?r" by simp
  have sq: "(mean ?r)\<^sup>2 \<le> underflow_threshold"
    using tiny_square by simp
  note row = throughput_of_row_underflow[OF m sq, of 1073741824 "Fin 1" 1 "''1M''"]
  have fr: "frame_of [(''1m_hot_raw'', [?r])] ''1m_hot_raw'' = [?r]"
    by (simp add: frame_of_def)
  have f: "throughput_of_key float_decimal sample_fs [(''1m_hot_raw'', [?r])]
      sample_results ''1m_hot_raw'' = Inl ZeroDivisionError"
    unfolding throughput_of_key_known[OF sample_results_lookup(1) sample_size_1m nz sample_size_info_1m]
      sample_gib fr
    using row by simp
  from sample_key_1m sample_size_1m b c d e f show ?thesis by (intro conjI)
qed




subsection \<open>Scaling\<close>

lemma sorted_hd_le: "sorted (map f xs) \<Longrightarrow> x \<in> set xs \<Longrightarrow> f (hd xs) \<le> f x"
  by (cases xs) auto

lemma sorted_le_last: "sorted (map f xs) \<Longrightarrow> x \<in> set xs \<Longrightarrow> f x \<le> f (last xs)"
  by (induction xs) auto

lemma scaling_analysis_pair:
  "0 < t \<Longrightarrow> 0 < s \<Longrightarrow>
   scaling_analysis
     [\<lparr> sr_size_value = s, sr_size_display = a, sr_command = c, sr_mean = t, sr_stddev = e \<rparr>,
      \<lparr> sr_size_value = 10 * s, sr_size_display = b, sr_command = c, sr_mean = t, sr_stddev = e' \<rparr>]
   = Some (1, 10, 1/10)"
  by (simp add: scaling_analysis_def Let_def)

lemma parser_data_sorted: "sorted (map sr_size_value (parser_data scaling_df parser))"
  by (simp add: parser_data_def)

text \<open>
  Claim C8. The rows of one parser are sorted by size. When there are at least two, and
  the time and the size of the first (smallest) are positive, the printed scaling
  efficiency is (time at the largest size / time at the smallest size) divided by
  (largest size / smallest size), the first row having the smallest and the last row
  the largest size. Two rows with equal times at sizes \<open>s\<close> and \<open>10 s\<close> give \<open>1/10\<close>.
  Times and sizes are exact reals in the model.
\<close>

theorem scaling_efficiency_formula:
  assumes "sorted (map sr_size_value pd)"
    and "2 \<le> length pd"
    and "0 < sr_mean (hd pd)"
    and "0 < sr_size_value (hd pd)"
  shows "scaling_analysis pd =
           Some (sr_mean (last pd) / sr_mean (hd pd),
                 sr_size_value (last pd) / sr_size_value (hd pd),
                 (sr_mean (last pd) / sr_mean (hd pd))
                   / (sr_size_value (last pd) / sr_size_value (hd pd)))
       \<and> (\<forall>r \<in> set pd. sr_size_value (hd pd) \<le> sr_size_value r
                       \<and> sr_size_value r \<le> sr_size_value (last pd))
       \<and> (\<forall>t s a b c e e'. 0 < t \<and> 0 < s \<longrightarrow>
            scaling_analysis
              [\<lparr> sr_size_value = s, sr_size_display = a, sr_command = c, sr_mean = t, sr_stddev = e \<rparr>,
               \<lparr> sr_size_value = 10 * s, sr_size_display = b, sr_command = c, sr_mean = t, sr_stddev = e' \<rparr>]
            = Some (1, 10, 1/10))
       \<and> sorted (map sr_size_value (parser_data scaling_df parser))
       \<and> set (parser_data scaling_df parser) = {r \<in> set scaling_df. sr_command r = parser}"
proof (intro conjI ballI allI impI)
  show "sorted (map sr_size_value (parser_data scaling_df parser))"
    by (rule parser_data_sorted)
  show "set (parser_data scaling_df parser) = {r \<in> set scaling_df. sr_command r = parser}"
    by (simp add: parser_data_def)
  from assms(2) have ne: "pd \<noteq> []" by auto
  then have "last pd \<in> set pd" by simp
  from sorted_hd_le[OF assms(1) this] assms(4)
  have "0 < sr_size_value (last pd)" by simp
  with assms(4) have pos: "0 < sr_size_value (last pd) / sr_size_value (hd pd)" by simp
  show "scaling_analysis pd =
           Some (sr_mean (last pd) / sr_mean (hd pd),
                 sr_size_value (last pd) / sr_size_value (hd pd),
                 (sr_mean (last pd) / sr_mean (hd pd))
                   / (sr_size_value (last pd) / sr_size_value (hd pd)))"
    using assms(2,3,4) pos by (simp add: scaling_analysis_def Let_def)
  show "sr_size_value (hd pd) \<le> sr_size_value r" if "r \<in> set pd" for r
    using assms(1) that by (rule sorted_hd_le)
  show "sr_size_value r \<le> sr_size_value (last pd)" if "r \<in> set pd" for r
    using assms(1) that by (rule sorted_le_last)
  show "scaling_analysis
              [\<lparr> sr_size_value = s, sr_size_display = a, sr_command = c, sr_mean = t, sr_stddev = e \<rparr>,
               \<lparr> sr_size_value = 10 * s, sr_size_display = b, sr_command = c, sr_mean = t, sr_stddev = e' \<rparr>]
            = Some (1, 10, 1/10)" if "0 < t \<and> 0 < s" for t s a b c e e'
    using that by (simp add: scaling_analysis_pair)
qed

lemma sample_scaling_rows:
  "scaling_rows float_decimal sample_data ''hot'' ''raw'' =
     [\<lparr> sr_size_value = 1, sr_size_display = ''1M'', sr_command = ''needletail'',
         sr_mean = 2, sr_stddev = 1/2 \<rparr>,
      \<lparr> sr_size_value = 1, sr_size_display = ''1M'', sr_command = ''noop'',
         sr_mean = 0, sr_stddev = 0 \<rparr>,
      \<lparr> sr_size_value = 10, sr_size_display = ''10M'', sr_command = ''needletail'',
         sr_mean = 20, sr_stddev = 1 \<rparr>]"
  unfolding scaling_rows_def sample_matching_keys
  by (simp add: scaling_of_key_def sample_size_info_1m sample_size_info_10m sample_frames
        stddev_or_zero_def)

lemma sample_parser_data:
  "parser_data (scaling_rows float_decimal sample_data ''hot'' ''raw'') ''needletail'' =
     [\<lparr> sr_size_value = 1, sr_size_display = ''1M'', sr_command = ''needletail'',
         sr_mean = 2, sr_stddev = 1/2 \<rparr>,
      \<lparr> sr_size_value = 10, sr_size_display = ''10M'', sr_command = ''needletail'',
         sr_mean = 20, sr_stddev = 1 \<rparr>]"
  unfolding sample_scaling_rows parser_data_def by simp

theorem scaling_efficiency_formula_witness:
  "scaling_analysis (parser_data (scaling_rows float_decimal sample_data ''hot'' ''raw'') ''needletail'')
     = Some (10, 10, 1)"
proof -
  let ?pd = "[\<lparr> sr_size_value = 1, sr_size_display = ''1M'', sr_command = ''needletail'',
         sr_mean = 2, sr_stddev = 1/2 \<rparr>,
      \<lparr> sr_size_value = 10, sr_size_display = ''10M'', sr_command = ''needletail'',
         sr_mean = 20, sr_stddev = 1 \<rparr>]"
  have a: "sorted (map sr_size_value ?pd)" by simp
  have b: "2 \<le> length ?pd" by simp
  have c: "0 < sr_mean (hd ?pd)" by simp
  have d: "0 < sr_size_value (hd ?pd)" by simp
  from conjunct1[OF scaling_efficiency_formula[OF a b c d]]
  show ?thesis unfolding sample_parser_data by simp
qed

subsection \<open>Grid of mean times\<close>

lemma organize_step_placement:
  "organize_step ct item acc =
     (case placement ct item of None \<Rightarrow> acc | Some (k, v) \<Rightarrow> AList.update k v acc)"
  by (auto simp: organize_step_def placement_def split: prod.splits option.splits)

lemma organized_data_snoc:
  "organized_data (xs @ [x]) ct =
     (case placement ct x of None \<Rightarrow> organized_data xs ct
      | Some (k, v) \<Rightarrow> AList.update k v (organized_data xs ct))"
  unfolding organized_data_def by (simp add: organize_step_placement)

lemma organized_data_Nil: "organized_data [] ct = []"
  by (simp add: organized_data_def)

lemma organized_distinct: "distinct (map fst (organized_data xs ct))"
  by (induction xs rule: rev_induct)
     (auto simp: organized_data_Nil organized_data_snoc distinct_update split: option.splits)

lemma organized_lookup_origin:
  "map_of (organized_data xs ct) k = Some v \<Longrightarrow> v \<in> set xs \<and> placement ct v = Some (k, v)"
proof (induction xs rule: rev_induct)
  case Nil
  then show ?case by (simp add: organized_data_Nil)
next
  case (snoc x xs)
  show ?case
  proof (cases "placement ct x")
    case None
    with snoc show ?thesis by (auto simp: organized_data_snoc)
  next
    case (Some kv)
    obtain k' v' where kv: "kv = (k', v')" by (cases kv)
    have v': "v' = x" using Some kv
      by (auto simp: placement_def split: prod.splits option.splits if_splits)
    show ?thesis
    proof (cases "k' = k")
      case True
      with snoc.prems Some kv v' show ?thesis
        by (auto simp: organized_data_snoc update_conv')
    next
      case False
      with snoc Some kv show ?thesis
        by (auto simp: organized_data_snoc update_conv')
    qed
  qed
qed

lemma organized_key_present:
  "item \<in> set xs \<Longrightarrow> placement ct item = Some (k, v) \<Longrightarrow>
   \<exists>w. map_of (organized_data xs ct) k = Some w"
proof (induction xs rule: rev_induct)
  case Nil
  then show ?case by simp
next
  case (snoc x xs)
  show ?case
  proof (cases "placement ct x")
    case None
    with snoc show ?thesis by (auto simp: organized_data_snoc)
  next
    case (Some kv)
    obtain k' v' where kv: "kv = (k', v')" by (cases kv)
    show ?thesis
    proof (cases "k' = k")
      case True
      with Some kv show ?thesis by (simp add: organized_data_snoc update_conv')
    next
      case False
      with snoc Some kv show ?thesis
        by (auto simp: organized_data_snoc update_conv')
    qed
  qed
qed

lemma organized_mem_lookup:
  "((k, v) \<in> set (organized_data xs ct)) = (map_of (organized_data xs ct) k = Some v)"
  using organized_distinct[of xs ct] by (auto intro: map_of_is_SomeI dest: map_of_SomeD)

lemma set_all_parsers: "set (all_parsers cdf) = g_command ` set cdf"
  by (simp add: all_parsers_def)

lemma combined_of_commands:
  "g_command ` set (combined_of (k, (name, df))) = command ` set df"
  by (cases k) (simp add: combined_of_def image_image)

lemma combined_rows_commands:
  "(c \<in> g_command ` set (combined_rows organized))
   = (\<exists>k name df. (k, (name, df)) \<in> set organized \<and> c \<in> command ` set df)"
proof (induction organized)
  case Nil
  then show ?case by (simp add: combined_rows_def)
next
  case (Cons e al)
  obtain k name df where e: "e = (k, (name, df))" by (cases e) auto
  have "(c \<in> g_command ` set (combined_rows (e # al)))
        = (c \<in> command ` set df \<or> c \<in> g_command ` set (combined_rows al))"
    unfolding combined_rows_def e
    by (simp only: list.map concat.simps set_append image_Un combined_of_commands Un_iff)
  also have "\<dots> = (c \<in> command ` set df
       \<or> (\<exists>k name df. (k, (name, df)) \<in> set al \<and> c \<in> command ` set df))"
    unfolding Cons.IH ..
  also have "\<dots> = (\<exists>k' name' df'. (k', (name', df')) \<in> set (e # al) \<and> c \<in> command ` set df')"
    unfolding e by (simp only: list.set insert_iff) blast
  finally show ?case .
qed

lemma grid_rows_full:
  "compressions \<noteq> [] \<Longrightarrow>
   grid_rows organized cdf ps fsz sizes compressions
   = map (\<lambda>sz. (row_label sz, map (grid_cell organized cdf ps fsz sz) compressions)) sizes"
  unfolding grid_rows_def Let_def by (induction sizes) simp_all

lemma grid_cell_cases:
  "map_of organized (co, sz) = None \<Longrightarrow>
     grid_cell organized cdf ps fsz sz co = No_data (compression_label co)"
  "map_of organized (co, sz) = Some (name, df) \<Longrightarrow>
     grid_cell organized cdf ps fsz sz co
     = Bar_chart (chart_title fsz co name)
         (filter (\<lambda>g. g_compression g = co \<and> g_size g = sz) cdf) ps"
  by (simp_all add: grid_cell_def)

lemma filter_combined_of:
  "filter (\<lambda>g. g_compression g = co \<and> g_size g = sz) (combined_of (k, v))
   = (if k = (co, sz) then combined_of (k, v) else [])"
  by (cases k; cases v) (auto simp: combined_of_def filter_empty_conv)

lemma cell_rows_own_table:
  "distinct (map fst al) \<Longrightarrow> ((co, sz), v) \<in> set al \<Longrightarrow>
   filter (\<lambda>g. g_compression g = co \<and> g_size g = sz) (combined_rows al)
   = combined_of ((co, sz), v)"
proof (induction al)
  case Nil
  then show ?case by simp
next
  case (Cons e al)
  obtain k w where e: "e = (k, w)" by (cases e)
  have none: "filter (\<lambda>g. g_compression g = co \<and> g_size g = sz) (combined_rows al) = []"
    if "(co, sz) \<notin> fst ` set al" for al :: organized
    using that
    by (induction al) (auto simp: combined_rows_def filter_combined_of split: if_splits)
  show ?case
  proof (cases "k = (co, sz)")
    case True
    with Cons.prems e have "w = v" and "(co, sz) \<notin> fst ` set al"
      by (auto simp: image_iff)
    with True e none[of al] show ?thesis
      by (simp add: combined_rows_def filter_combined_of)
  next
    case False
    with Cons e show ?thesis
      by (auto simp: combined_rows_def filter_combined_of)
  qed
qed

lemma plot_mean_times_Some:
  assumes "plot_mean_times float_of data_dict file_sizes cache_type = Some rows"
  shows "organized_data data_dict cache_type \<noteq> []"
    and "rows = grid_rows (organized_data data_dict cache_type)
                  (combined_rows (organized_data data_dict cache_type))
                  (all_parsers (combined_rows (organized_data data_dict cache_type)))
                  file_sizes
                  (sorted_sizes float_of (map (\<lambda>e. snd (fst e)) (organized_data data_dict cache_type)))
                  (sort_key compression_rank
                     (remdups (map (\<lambda>e. fst (fst e)) (organized_data data_dict cache_type))))"
  using assms by (auto simp: plot_mean_times_def Let_def split: if_splits)

lemma scaling_rows_origin:
  assumes "s \<in> set (scaling_rows float_of all_data ct ff)"
  shows "\<exists>key r. key \<in> set (matching_keys all_data ct ff) \<and> r \<in> set (frame_of all_data key)
           \<and> command r = sr_command s \<and> mean r = sr_mean s
           \<and> fst (extract_size_info float_of key) = Some (sr_size_value s)"
proof -
  from assms obtain key where k: "key \<in> set (matching_keys all_data ct ff)"
    and s: "s \<in> set (scaling_of_key float_of all_data key)"
    by (auto simp: scaling_rows_def)
  obtain ov sk d where e: "extract_size_info float_of key = (ov, sk, d)"
    by (cases "extract_size_info float_of key")
  show ?thesis
  proof (cases ov)
    case None
    with s e show ?thesis by (simp add: scaling_of_key_def)
  next
    case (Some v)
    with s e obtain r where "r \<in> set (frame_of all_data key)"
      and "s = \<lparr> sr_size_value = v, sr_size_display = d, sr_command = command r,
                 sr_mean = mean r, sr_stddev = stddev_or_zero r \<rparr>"
      by (auto simp: scaling_of_key_def Let_def)
    with k e Some show ?thesis by (intro exI[of _ key] exI[of _ r]) simp
  qed
qed

lemma grid_cell_domain:
  "grid_cell organized cdf ps fsz sz co = Bar_chart t d dm \<Longrightarrow> dm = ps"
  by (auto simp: grid_cell_def split: option.splits)

lemma compressions_nonempty:
  "organized \<noteq> [] \<Longrightarrow>
   sort_key compression_rank (remdups (map (\<lambda>e. fst (fst e)) organized)) \<noteq> []"
  by (metis (no_types) length_0_conv length_map length_sort remdups_eq_nil_iff)

lemma sample_grid_keys:
  "parse_benchmark_key ''1m_hot_raw'' = Some (''1m'', ''hot'', ''raw'')"
  "parse_benchmark_key ''10m_hot_gz'' = Some (''10m'', ''hot'', ''gz'')"
  "parse_benchmark_key ''1m_cold_raw'' = Some (''1m'', ''cold'', ''raw'')"
  "sort [''needletail'', ''kseq''] = [''kseq'', ''needletail'']"
  "upper ''1m'' = ''1M''"
  "upper ''10m'' = ''10M''"
  by code_simp+

lemma sample_organized:
  "organized_data sample_grid_data ''hot'' =
     [((''raw'', ''1m''), ''1m_hot_raw'',
        [\<lparr> command = ''needletail'', mean = 2, stddev = Some (1/2), min_time = 3/2, max_time = 5/2 \<rparr>]),
      ((''gz'', ''10m''), ''10m_hot_gz'',
        [\<lparr> command = ''kseq'', mean = 30, stddev = None, min_time = 29, max_time = 31 \<rparr>])]"
  by (simp add: organized_data_def sample_grid_data_def organize_step_def sample_grid_keys)

lemma sample_grid_value:
  "plot_mean_times float_decimal sample_grid_data None ''hot'' =
   Some
    [(''1M reads'',
      [Bar_chart ''Raw FASTQ''
         [\<lparr> g_command = ''needletail'', g_mean = 2, g_stddev = 1/2, g_min = 3/2, g_max = 5/2,
             g_compression = ''raw'', g_size = ''1m'', g_benchmark_name = ''1m_hot_raw'' \<rparr>]
         [''kseq'', ''needletail''],
       No_data ''Gzipped'']),
     (''10M reads'',
      [No_data ''Raw FASTQ'',
       Bar_chart ''Gzipped''
         [\<lparr> g_command = ''kseq'', g_mean = 30, g_stddev = 0, g_min = 29, g_max = 31,
             g_compression = ''gz'', g_size = ''10m'', g_benchmark_name = ''10m_hot_gz'' \<rparr>]
         [''kseq'', ''needletail'']])]"
  unfolding plot_mean_times_def sample_organized Let_def
  by (simp add: combined_rows_def combined_of_def stddev_or_zero_def all_parsers_def
        sample_grid_keys sorted_sizes_def size_keys_literal compression_rank_def
        grid_rows_def grid_cell_def row_label_def chart_title_def compression_label_def)

text \<open>
  Claim C9, as the source has it. In a grid view the colour domain of every chart is the
  sorted list of the commands of the tables placed in that view: the non-empty tables
  whose name parses with the requested cache state, the later of two tables with the
  same \<open>(compression, size)\<close> replacing the earlier. When no two such tables share a key,
  every command of every one of them is listed; commands seen only in tables of another
  cache state are not. The grid has one cell for every size and compression of the
  view: a cell without a placed table is the \<^verbatim>\<open>No Data\<close> placeholder, and a cell with a
  table is a bar chart of the rows of that table only. Every row of a scaling series
  comes from a row of that command in the table of a matching key of that size.
\<close>

theorem grid_view_commands:
  assumes "plot_mean_times float_of data_dict file_sizes cache_type = Some rows"
  shows
    "(let organized = organized_data data_dict cache_type;
          combined_df = combined_rows organized;
          parsers = all_parsers combined_df;
          sizes = sorted_sizes float_of (map (\<lambda>e. snd (fst e)) organized);
          compressions = sort_key compression_rank (remdups (map (\<lambda>e. fst (fst e)) organized))
      in (\<forall>label cells title cdf dm.
            (label, cells) \<in> set rows \<and> Bar_chart title cdf dm \<in> set cells \<longrightarrow> dm = parsers)
       \<and> (\<forall>c. (c \<in> set parsers)
               = (\<exists>k name df. (k, (name, df)) \<in> set organized \<and> c \<in> command ` set df))
       \<and> (\<forall>k name df. (k, (name, df)) \<in> set organized \<longrightarrow>
               (name, df) \<in> set data_dict
             \<and> placement cache_type (name, df) = Some (k, (name, df)))
       \<and> ((\<forall>i \<in> set data_dict. \<forall>j \<in> set data_dict. \<forall>k v w.
               placement cache_type i = Some (k, v) \<and> placement cache_type j = Some (k, w)
               \<longrightarrow> i = j)
            \<longrightarrow> (\<forall>name df k v. (name, df) \<in> set data_dict
                     \<and> placement cache_type (name, df) = Some (k, v)
                   \<longrightarrow> (\<forall>r \<in> set df. command r \<in> set parsers)))
       \<and> rows = map (\<lambda>sz. (row_label sz,
                             map (grid_cell organized combined_df parsers file_sizes sz) compressions))
                     sizes
       \<and> (\<forall>sz co. map_of organized (co, sz) = None \<longrightarrow>
             grid_cell organized combined_df parsers file_sizes sz co
             = No_data (compression_label co))
       \<and> (\<forall>sz co name df. map_of organized (co, sz) = Some (name, df) \<longrightarrow>
             grid_cell organized combined_df parsers file_sizes sz co
             = Bar_chart (chart_title file_sizes co name)
                 (combined_of ((co, sz), (name, df))) parsers))
   \<and> (\<forall>s \<in> set (scaling_rows float_of all_data cache_type file_format).
         \<exists>key r. key \<in> set (matching_keys all_data cache_type file_format)
           \<and> r \<in> set (frame_of all_data key)
           \<and> command r = sr_command s \<and> mean r = sr_mean s
           \<and> fst (extract_size_info float_of key) = Some (sr_size_value s))"
proof -
  define organized where "organized = organized_data data_dict cache_type"
  define combined_df where "combined_df = combined_rows organized"
  define parsers where "parsers = all_parsers combined_df"
  define sizes where "sizes = sorted_sizes float_of (map (\<lambda>e. snd (fst e)) organized)"
  define compressions where
    "compressions = sort_key compression_rank (remdups (map (\<lambda>e. fst (fst e)) organized))"
  note defs = organized_def combined_df_def parsers_def sizes_def compressions_def
  from plot_mean_times_Some[OF assms]
  have ne: "organized \<noteq> []"
    and rows0: "rows = grid_rows organized combined_df parsers file_sizes sizes compressions"
    unfolding defs by simp_all
  have cne: "compressions \<noteq> []"
    unfolding compressions_def using ne by (rule compressions_nonempty)
  have rows: "rows = map (\<lambda>sz. (row_label sz,
                 map (grid_cell organized combined_df parsers file_sizes sz) compressions)) sizes"
    unfolding rows0 using cne by (rule grid_rows_full)
  have a: "dm = parsers"
    if "(label, cells) \<in> set rows \<and> Bar_chart title cdf dm \<in> set cells"
    for label cells title cdf dm
  proof -
    from that obtain sz where
      "cells = map (grid_cell organized combined_df parsers file_sizes sz) compressions"
      unfolding rows by auto
    with that obtain co where
      "grid_cell organized combined_df parsers file_sizes sz co = Bar_chart title cdf dm"
      by auto
    then show ?thesis by (rule grid_cell_domain)
  qed
  have b: "(c \<in> set parsers)
           = (\<exists>k name df. (k, (name, df)) \<in> set organized \<and> c \<in> command ` set df)" for c
    unfolding parsers_def combined_df_def set_all_parsers by (rule combined_rows_commands)
  have c: "(name, df) \<in> set data_dict \<and> placement cache_type (name, df) = Some (k, (name, df))"
    if "(k, (name, df)) \<in> set organized" for k name df
    using that unfolding organized_def organized_mem_lookup by (rule organized_lookup_origin)
  have d: "command r \<in> set parsers"
    if uniq: "\<forall>i \<in> set data_dict. \<forall>j \<in> set data_dict. \<forall>k v w.
               placement cache_type i = Some (k, v) \<and> placement cache_type j = Some (k, w)
               \<longrightarrow> i = j"
      and mem: "(name, df) \<in> set data_dict \<and> placement cache_type (name, df) = Some (k, v)"
      and r: "r \<in> set df"
    for name df k v r
  proof -
    from mem organized_key_present[of "(name, df)" data_dict cache_type k v]
    obtain w where w: "map_of organized k = Some w"
      unfolding organized_def by blast
    from organized_lookup_origin[OF w[unfolded organized_def]]
    have "w \<in> set data_dict" and "placement cache_type w = Some (k, w)" by simp_all
    with uniq mem have "w = (name, df)" by blast
    with w have "(k, (name, df)) \<in> set organized"
      unfolding organized_def organized_mem_lookup by simp
    with r show ?thesis unfolding b by blast
  qed
  have e: "grid_cell organized combined_df parsers file_sizes sz co = No_data (compression_label co)"
    if "map_of organized (co, sz) = None" for sz co
    using that by (rule grid_cell_cases(1))
  have f: "grid_cell organized combined_df parsers file_sizes sz co
             = Bar_chart (chart_title file_sizes co name)
                 (combined_of ((co, sz), (name, df))) parsers"
    if "map_of organized (co, sz) = Some (name, df)" for sz co name df
  proof -
    have dist: "distinct (map fst organized)"
      unfolding organized_def by (rule organized_distinct)
    from that have m: "((co, sz), (name, df)) \<in> set organized"
      by (rule map_of_SomeD)
    show ?thesis
      unfolding grid_cell_cases(2)[OF that] combined_df_def cell_rows_own_table[OF dist m] ..
  qed
  have g: "\<exists>key r. key \<in> set (matching_keys all_data cache_type file_format)
           \<and> r \<in> set (frame_of all_data key)
           \<and> command r = sr_command s \<and> mean r = sr_mean s
           \<and> fst (extract_size_info float_of key) = Some (sr_size_value s)"
    if "s \<in> set (scaling_rows float_of all_data cache_type file_format)" for s
    using that by (rule scaling_rows_origin)
  show ?thesis
    unfolding Let_def defs[symmetric]
  proof (intro conjI allI impI ballI)
    show "dm = parsers"
      if "(label, cells) \<in> set rows \<and> Bar_chart title cdf dm \<in> set cells"
      for label cells title cdf dm
      using that by (rule a)
    show "(c \<in> set parsers)
           = (\<exists>k name df. (k, (name, df)) \<in> set organized \<and> c \<in> command ` set df)" for c
      by (rule b)
    show "(name, df) \<in> set data_dict" if "(k, (name, df)) \<in> set organized" for k name df
      using c[OF that] by (rule conjunct1)
    show "placement cache_type (name, df) = Some (k, (name, df))"
      if "(k, (name, df)) \<in> set organized" for k name df
      using c[OF that] by (rule conjunct2)
    show "command r \<in> set parsers"
      if "\<forall>i \<in> set data_dict. \<forall>j \<in> set data_dict. \<forall>k v w.
               placement cache_type i = Some (k, v) \<and> placement cache_type j = Some (k, w)
               \<longrightarrow> i = j"
        and "(name, df) \<in> set data_dict \<and> placement cache_type (name, df) = Some (k, v)"
        and "r \<in> set df"
      for name df k v r
      using that by (rule d)
    show "rows = map (\<lambda>sz. (row_label sz,
                 map (grid_cell organized combined_df parsers file_sizes sz) compressions)) sizes"
      by (rule rows)
    show "grid_cell organized combined_df parsers file_sizes sz co = No_data (compression_label co)"
      if "map_of organized (co, sz) = None" for sz co
      using that by (rule e)
    show "grid_cell organized combined_df parsers file_sizes sz co
             = Bar_chart (chart_title file_sizes co name)
                 (combined_of ((co, sz), (name, df))) parsers"
      if "map_of organized (co, sz) = Some (name, df)" for sz co name df
      using that by (rule f)
    show "\<exists>key r. key \<in> set (matching_keys all_data cache_type file_format)
           \<and> r \<in> set (frame_of all_data key)
           \<and> command r = sr_command s \<and> mean r = sr_mean s
           \<and> fst (extract_size_info float_of key) = Some (sr_size_value s)"
      if "s \<in> set (scaling_rows float_of all_data cache_type file_format)" for s
      using that by (rule g)
  qed
qed

theorem grid_view_commands_witness:
  "[''kseq'', ''needletail''] =
     all_parsers (combined_rows (organized_data sample_grid_data ''hot''))"
proof -
  let ?chart = "Bar_chart ''Raw FASTQ''
         [\<lparr> g_command = ''needletail'', g_mean = 2, g_stddev = 1/2, g_min = 3/2, g_max = 5/2,
             g_compression = ''raw'', g_size = ''1m'', g_benchmark_name = ''1m_hot_raw'' \<rparr>]
         [''kseq'', ''needletail'']"
  let ?cells = "[?chart, No_data ''Gzipped'']"
  let ?row2 = "(''10M reads'',
      [No_data ''Raw FASTQ'',
       Bar_chart ''Gzipped''
         [\<lparr> g_command = ''kseq'', g_mean = 30, g_stddev = 0, g_min = 29, g_max = 31,
             g_compression = ''gz'', g_size = ''10m'', g_benchmark_name = ''10m_hot_gz'' \<rparr>]
         [''kseq'', ''needletail'']])"
  note t = conjunct1[OF conjunct1[OF grid_view_commands[OF sample_grid_value], unfolded Let_def]]
  have m: "(''1M reads'', ?cells) \<in> set [(''1M reads'', ?cells), ?row2] \<and> ?chart \<in> set ?cells"
    by simp
  from t[rule_format, OF m] show ?thesis .
qed

text \<open>Where C9 fails as stated: \<^verbatim>\<open>biopython\<close> is observed in the cold table of the input
  and is not in the colour domain of the hot grid; the cell \<open>(raw, 1m)\<close> has no data for
  \<^verbatim>\<open>kseq\<close> and is a bar chart, not a placeholder.\<close>

theorem grid_view_commands_counterexample:
  "plot_mean_times float_decimal sample_grid_data None ''hot'' =
   Some
    [(''1M reads'',
      [Bar_chart ''Raw FASTQ''
         [\<lparr> g_command = ''needletail'', g_mean = 2, g_stddev = 1/2, g_min = 3/2, g_max = 5/2,
             g_compression = ''raw'', g_size = ''1m'', g_benchmark_name = ''1m_hot_raw'' \<rparr>]
         [''kseq'', ''needletail''],
       No_data ''Gzipped'']),
     (''10M reads'',
      [No_data ''Raw FASTQ'',
       Bar_chart ''Gzipped''
         [\<lparr> g_command = ''kseq'', g_mean = 30, g_stddev = 0, g_min = 29, g_max = 31,
             g_compression = ''gz'', g_size = ''10m'', g_benchmark_name = ''10m_hot_gz'' \<rparr>]
         [''kseq'', ''needletail'']])]
   \<and> ''biopython'' \<in> command ` set (frame_of sample_grid_data ''1m_cold_raw'')
   \<and> ''biopython'' \<notin> set [''kseq'', ''needletail'']"
proof -
  have a: "''biopython'' \<in> command ` set (frame_of sample_grid_data ''1m_cold_raw'')"
    by (simp add: frame_of_def sample_grid_data_def)
  have b: "''biopython'' \<notin> set [''kseq'', ''needletail'']" by simp
  from sample_grid_value a b show ?thesis by (intro conjI)
qed

end

